theory Spec2Isabelle
  imports Complex_Main
begin

chapter \<open>The model of \<^verbatim>\<open>page-builder.js\<close>\<close>

text \<open>
  The library builds an HTML report in the browser: a \<^verbatim>\<open>PageBuilder\<close> object creates the
  document structure, and a set of renderer functions draws charts and tables with the
  D3 library. The model below follows the source function by function.

  JavaScript numbers are IEEE doubles. The model computes with exact reals, and keeps the
  three special values a renderer can meet (\<^verbatim>\<open>NaN\<close> and the two infinities) as constructors
  of their own; rounding, overflow and the sign of zero are outside the model.
\<close>

section \<open>JavaScript numbers\<close>

datatype jsnum = Fin real | NaN | PosInf | NegInf

text \<open>Comparison \<^verbatim>\<open>a <= b\<close>: false as soon as one side is \<^verbatim>\<open>NaN\<close>.\<close>

fun js_le :: "jsnum \<Rightarrow> jsnum \<Rightarrow> bool" where
  "js_le NaN _ = False"
| "js_le _ NaN = False"
| "js_le NegInf _ = True"
| "js_le _ PosInf = True"
| "js_le (Fin a) (Fin b) = (a \<le> b)"
| "js_le _ _ = False"

text \<open>Strict equality \<^verbatim>\<open>a === b\<close> on numbers: \<^verbatim>\<open>NaN\<close> equals nothing.\<close>

definition js_strict_eq :: "jsnum \<Rightarrow> jsnum \<Rightarrow> bool" where
  "js_strict_eq a b = (a \<noteq> NaN \<and> b \<noteq> NaN \<and> a = b)"

definition js_min2 :: "jsnum \<Rightarrow> jsnum \<Rightarrow> jsnum" where
  "js_min2 a b = (if a = NaN \<or> b = NaN then NaN else if js_le a b then a else b)"

definition js_max2 :: "jsnum \<Rightarrow> jsnum \<Rightarrow> jsnum" where
  "js_max2 a b = (if a = NaN \<or> b = NaN then NaN else if js_le a b then b else a)"

text \<open>
  \<^verbatim>\<open>Math.min(...xs)\<close> and \<^verbatim>\<open>Math.max(...xs)\<close>: \<^verbatim>\<open>NaN\<close> if any argument is, and
  \<^verbatim>\<open>Infinity\<close> resp. \<^verbatim>\<open>-Infinity\<close> for no argument at all.
\<close>

fun Math_min :: "jsnum list \<Rightarrow> jsnum" where
  "Math_min [] = PosInf"
| "Math_min (x # xs) = js_min2 x (Math_min xs)"

fun Math_max :: "jsnum list \<Rightarrow> jsnum" where
  "Math_max [] = NegInf"
| "Math_max (x # xs) = js_max2 x (Math_max xs)"

fun Math_abs :: "jsnum \<Rightarrow> jsnum" where
  "Math_abs (Fin a) = Fin \<bar>a\<bar>"
| "Math_abs NaN = NaN"
| "Math_abs PosInf = PosInf"
| "Math_abs NegInf = PosInf"

text \<open>Division \<^verbatim>\<open>a / b\<close>; a finite number over zero is an infinity, zero over zero is \<^verbatim>\<open>NaN\<close>.\<close>

fun js_div :: "jsnum \<Rightarrow> jsnum \<Rightarrow> jsnum" where
  "js_div NaN _ = NaN"
| "js_div _ NaN = NaN"
| "js_div (Fin a) (Fin b) =
     (if b \<noteq> 0 then Fin (a / b)
      else if a = 0 then NaN else if 0 < a then PosInf else NegInf)"
| "js_div (Fin a) _ = Fin 0"
| "js_div PosInf (Fin b) = (if 0 \<le> b then PosInf else NegInf)"
| "js_div NegInf (Fin b) = (if 0 \<le> b then NegInf else PosInf)"
| "js_div _ _ = NaN"

text \<open>Multiplication by and addition of a numeric literal of the source.\<close>

fun js_times :: "jsnum \<Rightarrow> real \<Rightarrow> jsnum" where
  "js_times (Fin a) c = Fin (a * c)"
| "js_times NaN c = NaN"
| "js_times PosInf c = (if 0 < c then PosInf else if c < 0 then NegInf else NaN)"
| "js_times NegInf c = (if 0 < c then NegInf else if c < 0 then PosInf else NaN)"

fun js_plus :: "jsnum \<Rightarrow> real \<Rightarrow> jsnum" where
  "js_plus (Fin a) c = Fin (a + c)"
| "js_plus x c = x"

text \<open>
  Reading an array: \<^verbatim>\<open>xs[i]\<close> is \<^verbatim>\<open>undefined\<close> past the end (\<open>None\<close>), and
  \<^verbatim>\<open>undefined\<close> used as a number is \<^verbatim>\<open>NaN\<close>.
\<close>

definition elem_at :: "'a list \<Rightarrow> nat \<Rightarrow> 'a option" where
  "elem_at xs i = (if i < length xs then Some (xs ! i) else None)"

definition num_at :: "real list \<Rightarrow> nat \<Rightarrow> jsnum" where
  "num_at xs i = (if i < length xs then Fin (xs ! i) else NaN)"

section \<open>Colour assignment (\<^verbatim>\<open>CHART_COLORS\<close>, \<^verbatim>\<open>getColors\<close>)\<close>

text \<open>
  The colour table: the primary colour, a fixed ordered palette and the two gender
  colours. Colours are CSS strings.
\<close>

definition CHART_COLORS_primary :: string where
  "CHART_COLORS_primary = ''#3498db''"

definition CHART_COLORS_palette :: "string list" where
  "CHART_COLORS_palette =
     [''#3498db'', ''#2ecc71'', ''#f39c12'', ''#e74c3c'', ''#9b59b6'',
      ''#1abc9c'', ''#34495e'', ''#f1c40f'', ''#e67e22'', ''#95a5a6'',
      ''#2980b9'', ''#27ae60'', ''#d35400'', ''#c0392b'', ''#8e44ad'']"

definition CHART_COLORS_gender_male :: string where
  "CHART_COLORS_gender_male = ''#4a90e2''"

definition CHART_COLORS_gender_female :: string where
  "CHART_COLORS_gender_female = ''#50e3c2''"

text \<open>
  \<^verbatim>\<open>for (let i = 0; i < count; i++) colors.push(palette[i % palette.length])\<close>:
  the loop of \<^verbatim>\<open>getColors\<close>, with the loop variable and the array built so far as
  arguments. Every caller passes an array length as \<open>count\<close>, hence a natural number.
  The index \<open>i mod 15\<close> is always inside the palette, so the read never yields
  \<^verbatim>\<open>undefined\<close>.
\<close>

function getColors_loop :: "nat \<Rightarrow> nat \<Rightarrow> string list \<Rightarrow> string list" where
  "getColors_loop count i colors =
     (if i < count
      then getColors_loop count (Suc i)
             (colors @ [CHART_COLORS_palette ! (i mod length CHART_COLORS_palette)])
      else colors)"
  by pat_completeness auto
termination
  by (relation "measure (\<lambda>(count, i, colors). count - i)") auto

declare getColors_loop.simps [simp del]

text \<open>
  \<^verbatim>\<open>getColors(count, type = 'palette')\<close>: the type \<^verbatim>\<open>'gender'\<close> returns the two
  gender colours; every other type string takes the palette branch.
\<close>

definition getColors :: "nat \<Rightarrow> string \<Rightarrow> string list" where
  "getColors count type =
     (if type = ''gender''
      then [CHART_COLORS_gender_male, CHART_COLORS_gender_female]
      else getColors_loop count 0 [])"

section \<open>Data series and the multi-scale normalisation\<close>

text \<open>
  A dataset as the grouped renderers take it: \<^verbatim>\<open>{label, data, backgroundColor?}\<close>, the
  data being an array of finite numbers.
\<close>

record dataset =
  ds_label :: string
  ds_data :: "real list"
  ds_backgroundColor :: "string option"

text \<open>
  What \<^verbatim>\<open>createMultiScaleBarChart\<close> makes of a dataset:
  \<^verbatim>\<open>{...dataset, data: normalizedData, originalData, backgroundColor}\<close>.
\<close>

record normalized_dataset =
  nd_label :: string
  nd_data :: "jsnum list"
  nd_originalData :: "real list"
  nd_backgroundColor :: string

text \<open>
  The body of the \<^verbatim>\<open>for\<close> loop at position \<open>i\<close>: the values of all datasets at \<open>i\<close>,
  their minimum and maximum, and the four branches in the order of the source.
\<close>

definition normalizeValue :: "dataset list \<Rightarrow> real list \<Rightarrow> nat \<Rightarrow> jsnum" where
  "normalizeValue datasets originalData i =
     (let valuesForThisVariable = map (\<lambda>ds. num_at (ds_data ds) i) datasets;
          vmin = Math_min valuesForThisVariable;
          vmax = Math_max valuesForThisVariable
      in if js_strict_eq vmin vmax then Fin 50
         else if js_le (Fin 0) vmin
           then js_times (js_div (num_at originalData i) vmax) 100
         else if js_le vmax (Fin 0)
           then js_times (js_div (num_at originalData i) (Math_abs vmin)) 100
         else (let maxAbs = Math_max [Math_abs vmin, Math_abs vmax]
               in js_plus (js_times (js_div (num_at originalData i) maxAbs) 50) 50))"

text \<open>\<^verbatim>\<open>for (let i = 0; i < originalData.length; i++) normalizedData.push(...)\<close>\<close>

function normalize_loop ::
  "dataset list \<Rightarrow> real list \<Rightarrow> nat \<Rightarrow> jsnum list \<Rightarrow> jsnum list" where
  "normalize_loop datasets originalData i normalizedData =
     (if i < length originalData
      then normalize_loop datasets originalData (Suc i)
             (normalizedData @ [normalizeValue datasets originalData i])
      else normalizedData)"
  by pat_completeness auto
termination
  by (relation "measure (\<lambda>(datasets, originalData, i, normalizedData). length originalData - i)")
    auto

declare normalize_loop.simps [simp del]

text \<open>
  The callback of \<^verbatim>\<open>datasets.map((dataset, datasetIndex) => ...)\<close>. A missing or empty
  \<^verbatim>\<open>backgroundColor\<close> is falsy and replaced by the palette colour of the index.
\<close>

definition normalizeDataset :: "dataset list \<Rightarrow> dataset \<Rightarrow> nat \<Rightarrow> normalized_dataset" where
  "normalizeDataset datasets dataset datasetIndex =
     (let originalData = ds_data dataset;
          normalizedData = normalize_loop datasets originalData 0 []
      in \<lparr> nd_label = ds_label dataset,
           nd_data = normalizedData,
           nd_originalData = originalData,
           nd_backgroundColor =
             (case ds_backgroundColor dataset of
                Some c \<Rightarrow>
                  if c \<noteq> [] then c
                  else CHART_COLORS_palette ! (datasetIndex mod length CHART_COLORS_palette)
              | None \<Rightarrow>
                  CHART_COLORS_palette ! (datasetIndex mod length CHART_COLORS_palette)) \<rparr>)"

definition normalizedDatasets :: "dataset list \<Rightarrow> normalized_dataset list" where
  "normalizedDatasets datasets =
     map (\<lambda>(dataset, datasetIndex). normalizeDataset datasets dataset datasetIndex)
       (zip datasets [0..<length datasets])"

section \<open>JavaScript values, errors and objects\<close>

text \<open>
  The values a table cell, a row or a record can be. Functions are not values of the
  model; the one function a caller passes (\<^verbatim>\<open>formatValue\<close>) is a HOL function.
\<close>

datatype jsval =
    Undefined | Null | Bool bool | Num real | Str string
  | Arr "jsval list" | Obj "(string \<times> jsval) list"

datatype js_error = ReferenceError | TypeError | DOMException | Error string

text \<open>Truthiness, and \<^verbatim>\<open>a || b\<close>.\<close>

fun truthy :: "jsval \<Rightarrow> bool" where
  "truthy Undefined = False"
| "truthy Null = False"
| "truthy (Bool b) = b"
| "truthy (Num x) = (x \<noteq> 0)"
| "truthy (Str s) = (s \<noteq> [])"
| "truthy (Arr xs) = True"
| "truthy (Obj ps) = True"

definition js_or :: "jsval \<Rightarrow> jsval \<Rightarrow> jsval" where
  "js_or a b = (if truthy a then a else b)"

text \<open>\<^verbatim>\<open>xs[i]\<close> on an array of values.\<close>

definition val_at :: "jsval list \<Rightarrow> nat \<Rightarrow> jsval" where
  "val_at xs i = (if i < length xs then xs ! i else Undefined)"

text \<open>
  Property read \<^verbatim>\<open>item.k\<close> for the four keys the table reads (\<^verbatim>\<open>label\<close>, \<^verbatim>\<open>name\<close>,
  \<^verbatim>\<open>key\<close>, \<^verbatim>\<open>value\<close>). On \<^verbatim>\<open>undefined\<close> and \<^verbatim>\<open>null\<close> the read throws a
  \<^verbatim>\<open>TypeError\<close>; on an object it gives the property; the other values have none of the
  four, and the read gives \<^verbatim>\<open>undefined\<close>.
\<close>

definition nullish :: "jsval \<Rightarrow> bool" where
  "nullish v = (v = Undefined \<or> v = Null)"

fun js_get :: "jsval \<Rightarrow> string \<Rightarrow> jsval" where
  "js_get (Obj ps) k = (case map_of ps k of Some v \<Rightarrow> v | None \<Rightarrow> Undefined)"
| "js_get _ k = Undefined"

text \<open>
  Property write \<^verbatim>\<open>obj[k] = v\<close> on an object kept as an association list in insertion
  order: an existing key keeps its place and takes the new value. The renderers read
  such an object by key only, never in enumeration order.
\<close>

fun js_set :: "'k \<Rightarrow> 'v \<Rightarrow> ('k \<times> 'v) list \<Rightarrow> ('k \<times> 'v) list" where
  "js_set k v [] = [(k, v)]"
| "js_set k v ((k', v') # ps) = (if k = k' then (k, v) # ps else (k', v') # js_set k v ps)"

section \<open>The page the renderers draw on\<close>

text \<open>
  The global \<^verbatim>\<open>d3\<close>: not declared at all (the script never ran, so that reading the
  identifier throws a \<^verbatim>\<open>ReferenceError\<close>), declared with a falsy value, or the library.
\<close>

datatype d3_binding = D3_undeclared | D3_falsy | D3_loaded

datatype log_entry = console_error string | console_warn string | console_log string

text \<open>The elements renderers append to \<^verbatim>\<open>body\<close>: tooltips and context menus (by id).\<close>

datatype overlay = Tooltip | ContextMenu string

text \<open>A renderer returns \<^verbatim>\<open>null\<close> or an object of handles to what it drew.\<close>

datatype result = Null_result | Handles

text \<open>
  What the grouped bar charts draw. A group is the object
  \<^verbatim>\<open>{label, [series label]: value, ...}\<close>, kept as the list of its own properties; the
  category label and the series values share one namespace of keys, as in the source.
  Reading the key \<^verbatim>\<open>__proto__\<close> of an object that has no own property of that name
  gives \<^verbatim>\<open>Object.prototype\<close>. A bar is the object \<^verbatim>\<open>{key, value: d[key], label: d.label}\<close>
  bound to one rectangle.
\<close>

datatype group_entry = GLabel string | GValue "real option" | GObjectPrototype

record bar =
  bar_key :: string
  bar_value :: group_entry
  bar_label :: group_entry

record multi_series_visual =
  ms_groupedData :: "(string \<times> group_entry) list list"
  ms_bars :: "bar list list"
  ms_seriesNames :: "string list"
  ms_colors :: "string list"
  ms_yAxisTitle :: "string option"

record comparison_visual =
  cmp_groupedData :: "(string \<times> group_entry) list list"
  cmp_bars :: "bar list list"
  cmp_seriesNames :: "string list"
  cmp_colors :: "string list"
  cmp_yAxisTitle :: "string option"
  cmp_showAsPercentage :: bool

text \<open>
  What the single-series bar charts draw: one rectangle per data value, placed at the
  label of the same index (\<^verbatim>\<open>undefined\<close> past the end of the labels).
\<close>

record single_bar =
  sb_value :: real
  sb_category :: "string option"
  sb_fill :: "string option"

record single_series_visual =
  ss_bars :: "single_bar list"
  ss_horizontal :: bool
  ss_yAxisTitle :: "string option"

text \<open>
  The text of a pie slice: empty, or \<^verbatim>\<open>`${value.toFixed(1)}%`\<close> of the value it holds.
\<close>

datatype slice_text = NoText | PercentText real

record pie_slice =
  sl_label :: string
  sl_value :: "real option"
  sl_fill :: "string option"
  sl_text :: slice_text

record pie_visual =
  pie_slices :: "pie_slice list"
  pie_legend :: "(string \<times> string option) list option"

record ring_slice =
  rs_label :: string
  rs_value :: "real option"
  rs_fill :: "string option"

record doughnut_visual =
  dn_slices :: "ring_slice list"
  dn_title :: "string option"
  dn_legend :: "(string \<times> string option) list option"

datatype scale_entry = SLabel string | SBar "jsnum option" "real option"

record multi_scale_visual =
  sc_groupedData :: "(string \<times> scale_entry) list list"
  sc_seriesNames :: "string list"
  sc_colors :: "string list"
  sc_yAxisTitle :: "string option"

text \<open>
  What \<^verbatim>\<open>cell.text(displayValue)\<close> is given: the cell's value as it is, the result of
  \<^verbatim>\<open>toLocaleString()\<close> or of \<^verbatim>\<open>toFixed(1)\<close> on a number, or what the caller's formatter
  returned.
\<close>

datatype display = Raw jsval | LocaleString real | Fixed1 real | Formatted jsval

record cell =
  c_fontWeight500 :: bool
  c_alignRight :: bool
  c_monospace :: bool
  c_text :: display

record table_row =
  r_background :: string
  r_index :: "nat option"
  r_cells :: "cell list"

record table_visual =
  t_title :: "string option"
  t_className :: string
  t_headers :: "string list"
  t_sortable :: bool
  t_rows :: "table_row list"

datatype visual =
    MultiSeriesBars multi_series_visual
  | PercentageBars single_series_visual
  | MultiColorBars single_series_visual
  | ComparisonBars comparison_visual
  | PieChart pie_visual
  | DoughnutChart doughnut_visual
  | MultiScaleBars multi_scale_visual
  | DataTable table_visual

text \<open>
  An element of the document: the first element of a given id among those that are not
  context menus, the first context menu of a given id, or an element known by nothing but
  an address. What \<^verbatim>\<open>document.querySelector\<close> answers: a \<^verbatim>\<open>SyntaxError\<close> exception
  for a string that is no selector, no element, or an element.
\<close>

datatype element = ById string | Menu string | Anonymous nat

datatype selection = Invalid_selector | No_element | Found element

text \<open>
  The state a renderer reads and writes: the binding of \<^verbatim>\<open>d3\<close>, the console, the
  elements that can be drawn on with what has been drawn on each, the overlays appended
  to \<^verbatim>\<open>body\<close> in the order of their appending, and the browser's answer for the
  selectors \<^verbatim>\<open>'#' + id\<close> that the model does not decide itself (see \<open>select_id\<close>
  below). The console holds what the script writes with \<^verbatim>\<open>console.error\<close>,
  \<^verbatim>\<open>console.warn\<close> and \<^verbatim>\<open>console.log\<close>; what a browser reports on its own, as for an
  attribute value it cannot parse, is not part of it. The document has a \<^verbatim>\<open>body\<close>; the
  overlays, appended at its end, come after the other elements in document order; and
  no element of the model lies inside another.
\<close>

record page =
  d3 :: d3_binding
  console :: "log_entry list"
  containers :: "element \<rightharpoonup> visual list"
  foreign_select :: "string \<Rightarrow> selection"
  overlays :: "overlay list"

text \<open>
  A plain identifier: ASCII letters, digits, hyphens and underscores, starting with a
  letter or an underscore, or with a hyphen and then a letter or an underscore. For such
  an id the string \<^verbatim>\<open>'#' + id\<close> is a valid selector and selects the first element of that
  id.
\<close>

definition ident_start :: "char \<Rightarrow> bool" where
  "ident_start c =
     (c \<in> set ''abcdefghijklmnopqrstuvwxyz'' \<or> c \<in> set ''ABCDEFGHIJKLMNOPQRSTUVWXYZ'' \<or>
      c = CHR ''_'')"

definition ident_char :: "char \<Rightarrow> bool" where
  "ident_char c = (ident_start c \<or> c \<in> set ''0123456789'' \<or> c = CHR ''-'')"

fun css_ident :: "string \<Rightarrow> bool" where
  "css_ident [] = False"
| "css_ident [c] = ident_start c"
| "css_ident (c # d # cs) =
     ((ident_start c \<or> (c = CHR ''-'' \<and> ident_start d)) \<and> list_all ident_char (d # cs))"

text \<open>
  An id after which \<^verbatim>\<open>'#' + id\<close> is no selector, whatever follows: the empty id, an
  id whose first character is a printable ASCII character other than a letter, an
  underscore, a hyphen or a backslash (a digit, a space, a dot: the \<^verbatim>\<open>#\<close> then starts
  no id selector), and an id that is a hyphen alone or a hyphen before such a character.
\<close>

definition ascii_printable :: "char \<Rightarrow> bool" where
  "ascii_printable c = (32 \<le> (of_char c :: nat) \<and> (of_char c :: nat) < 127)"

definition no_ident_start :: "char \<Rightarrow> bool" where
  "no_ident_start c =
     (ascii_printable c \<and> \<not> ident_start c \<and> c \<noteq> CHR ''-'' \<and> c \<noteq> CHR 0x5C)"

fun no_selector :: "string \<Rightarrow> bool" where
  "no_selector [] = True"
| "no_selector [c] = (no_ident_start c \<or> c = CHR ''-'')"
| "no_selector (c # d # cs) = (no_ident_start c \<or> (c = CHR ''-'' \<and> no_ident_start d))"

text \<open>
  \<^verbatim>\<open>d3.select('#' + id)\<close>, which is \<^verbatim>\<open>document.querySelector\<close> of that string. For a
  plain identifier it is the first element of that id in document order, ids being
  compared exactly (the document is not in quirks mode). For an id that makes no
  selector it throws. For the other ids (escapes, characters outside ASCII, selectors
  that mean something else, as with a space inside) the page holds the answer.
\<close>

definition select_id :: "string \<Rightarrow> page \<Rightarrow> selection" where
  "select_id elementId p =
     (if css_ident elementId
      then (case containers p (ById elementId) of
              Some old \<Rightarrow> Found (ById elementId)
            | None \<Rightarrow>
                if ContextMenu elementId \<in> set (overlays p) then Found (Menu elementId)
                else No_element)
      else if no_selector elementId then Invalid_selector
      else foreign_select p (''#'' @ elementId))"

text \<open>
  \<^verbatim>\<open>selectAll('*').remove()\<close> on the selection and the appends that follow: the children
  of the selected element are replaced by the new visual. On an empty selection nothing
  is removed and nothing is drawn.
\<close>

definition place :: "selection \<Rightarrow> visual \<Rightarrow> page \<Rightarrow> page" where
  "place s v p =
     (case s of
        Found e \<Rightarrow> p\<lparr>containers := (containers p)(e \<mapsto> [v])\<rparr>
      | _ \<Rightarrow> p)"

text \<open>
  \<^verbatim>\<open>setupSVG(containerId)\<close> with the drawing that follows it: the select throws for an
  invalid selector, before anything is touched.
\<close>

definition draw :: "string \<Rightarrow> visual \<Rightarrow> page \<Rightarrow> js_error + page" where
  "draw containerId v p =
     (case select_id containerId p of
        Invalid_selector \<Rightarrow> Inl DOMException
      | s \<Rightarrow> Inr (place s v p))"

definition createTooltip :: "page \<Rightarrow> page" where
  "createTooltip p = p\<lparr>overlays := overlays p @ [Tooltip]\<rparr>"

text \<open>
  \<^verbatim>\<open>selection.remove()\<close>: the selected element leaves the document with what was drawn
  on it.
\<close>

definition remove_selected :: "selection \<Rightarrow> page \<Rightarrow> page" where
  "remove_selected s p =
     (case s of
        Found (Menu m) \<Rightarrow>
          p\<lparr>containers := (containers p)(Menu m := None),
            overlays := remove1 (ContextMenu m) (overlays p)\<rparr>
      | Found e \<Rightarrow> p\<lparr>containers := (containers p)(e := None)\<rparr>
      | _ \<Rightarrow> p)"

text \<open>
  \<^verbatim>\<open>d3.select('#' + contextMenuId).remove()\<close> and the append of the new menu to
  \<^verbatim>\<open>body\<close>, the part \<^verbatim>\<open>addRightClickCopy\<close> and \<^verbatim>\<open>addRightClickCopyTable\<close> share.
\<close>

definition replace_context_menu :: "string \<Rightarrow> page \<Rightarrow> js_error + page" where
  "replace_context_menu contextMenuId p =
     (case select_id contextMenuId p of
        Invalid_selector \<Rightarrow> Inl DOMException
      | s \<Rightarrow>
          (let p1 = remove_selected s p
           in Inr (p1\<lparr>overlays := overlays p1 @ [ContextMenu contextMenuId]\<rparr>)))"

text \<open>
  \<^verbatim>\<open>addRightClickCopy\<close> and \<^verbatim>\<open>addRightClickCopyTable\<close>: an existing element of the
  menu's id is removed, a new menu is appended to \<^verbatim>\<open>body\<close>.
\<close>

definition addRightClickCopy :: "string \<Rightarrow> page \<Rightarrow> js_error + page" where
  "addRightClickCopy containerId p = replace_context_menu (''context-menu-'' @ containerId) p"

definition addRightClickCopyTable :: "string \<Rightarrow> page \<Rightarrow> js_error + page" where
  "addRightClickCopyTable containerId p =
     replace_context_menu (''context-menu-table-'' @ containerId) p"

text \<open>
  What the seven chart renderers do to the page with the visual they compute:
  \<^verbatim>\<open>setupSVG\<close>, whose select comes before anything is touched, the drawing with
  \<^verbatim>\<open>createTooltip\<close> in its middle, \<^verbatim>\<open>addRightClickCopy\<close>, and the handles returned.
  An exception leaves what was done until then.
\<close>

definition draw_chart :: "string \<Rightarrow> visual \<Rightarrow> page \<Rightarrow> (js_error + result) \<times> page" where
  "draw_chart containerId v p =
     (case draw containerId v p of
        Inl e \<Rightarrow> (Inl e, p)
      | Inr p1 \<Rightarrow>
          (case addRightClickCopy containerId (createTooltip p1) of
             Inl e \<Rightarrow> (Inl e, createTooltip p1)
           | Inr p2 \<Rightarrow> (Inr Handles, p2)))"

text \<open>\<^verbatim>\<open>if (yAxisTitle)\<close>: an absent or empty title draws no axis label.\<close>

definition truthy_title :: "string option \<Rightarrow> string option" where
  "truthy_title t = (case t of None \<Rightarrow> None | Some s \<Rightarrow> if s = [] then None else Some s)"

text \<open>A destructuring default: the field, or the default when the caller left it out.\<close>

definition or_default :: "'a option \<Rightarrow> 'a \<Rightarrow> 'a" where
  "or_default v d = (case v of None \<Rightarrow> d | Some x \<Rightarrow> x)"

text \<open>
  \<^verbatim>\<open>seriesNames.map(key => ({ key, value: d[key], label: d.label }))\<close>, the bars of one
  group. The read \<^verbatim>\<open>d[key]\<close> finds an own property if there is one; the renderers read
  only keys they have written, and \<^verbatim>\<open>label\<close>.
\<close>

definition read_own :: "(string \<times> group_entry) list \<Rightarrow> string \<Rightarrow> group_entry" where
  "read_own d key = (case map_of d key of Some e \<Rightarrow> e | None \<Rightarrow> GValue None)"

section \<open>\<^verbatim>\<open>createMultiSeriesBarChart\<close>\<close>

definition coloredDatasets_colors :: "dataset list \<Rightarrow> string list" where
  "coloredDatasets_colors datasets =
     map (\<lambda>(dataset, index).
            if ds_label dataset = ''Male'' then CHART_COLORS_gender_male
            else if ds_label dataset = ''Female'' then CHART_COLORS_gender_female
            else CHART_COLORS_palette ! (index mod length CHART_COLORS_palette))
       (zip datasets [0..<length datasets])"

text \<open>
  The assignment \<^verbatim>\<open>group[dataset.label] = dataset.data[i]\<close> of a number or of
  \<^verbatim>\<open>undefined\<close>. For the key \<^verbatim>\<open>__proto__\<close> it runs the setter of \<^verbatim>\<open>Object.prototype\<close>,
  which ignores a value that is not an object: no own property is made.
\<close>

definition assign_primitive ::
  "string \<Rightarrow> group_entry \<Rightarrow> (string \<times> group_entry) list \<Rightarrow> (string \<times> group_entry) list" where
  "assign_primitive k v obj = (if k = ''__proto__'' then obj else js_set k v obj)"

text \<open>
  \<^verbatim>\<open>const group = { label }; coloredDatasets.forEach(d => { group[d.label] = d.data[i] })\<close>
\<close>

definition multiSeries_group ::
  "dataset list \<Rightarrow> string \<Rightarrow> nat \<Rightarrow> (string \<times> group_entry) list" where
  "multiSeries_group datasets label i =
     fold (\<lambda>dataset group.
             assign_primitive (ds_label dataset) (GValue (elem_at (ds_data dataset) i)) group)
       datasets [(''label'', GLabel label)]"

definition multiSeries_groupedData ::
  "string list \<Rightarrow> dataset list \<Rightarrow> (string \<times> group_entry) list list" where
  "multiSeries_groupedData labels datasets =
     map (\<lambda>(label, i). multiSeries_group datasets label i) (zip labels [0..<length labels])"

text \<open>
  The read \<^verbatim>\<open>d[key]\<close> on such a group: the key \<^verbatim>\<open>__proto__\<close> is never an own property
  and reads as \<^verbatim>\<open>Object.prototype\<close>.
\<close>

definition read_group :: "(string \<times> group_entry) list \<Rightarrow> string \<Rightarrow> group_entry" where
  "read_group d key = (if key = ''__proto__'' then GObjectPrototype else read_own d key)"

definition multiSeries_bars :: "string list \<Rightarrow> (string \<times> group_entry) list \<Rightarrow> bar list" where
  "multiSeries_bars seriesNames d =
     map (\<lambda>key. \<lparr> bar_key = key, bar_value = read_group d key,
                  bar_label = read_group d ''label'' \<rparr>) seriesNames"

text \<open>
  The renderer: the guard on \<^verbatim>\<open>d3\<close>, then the drawing. It contains no check of the
  lengths of its arguments and no call of \<^verbatim>\<open>validateChartData\<close>; the only thing it
  ever logs is the guard's error. The last argument of the source, \<^verbatim>\<open>options\<close>, is read
  for \<^verbatim>\<open>yAxisTitle\<close> only.
\<close>

definition createMultiSeriesBarChart ::
  "string \<Rightarrow> string list \<Rightarrow> dataset list \<Rightarrow> string option \<Rightarrow> page
     \<Rightarrow> (js_error + result) \<times> page" where
  "createMultiSeriesBarChart containerId labels datasets yAxisTitle p =
     (case d3 p of
        D3_undeclared \<Rightarrow> (Inl ReferenceError, p)
      | D3_falsy \<Rightarrow>
          (Inr Null_result, p\<lparr>console := console p @ [console_error ''D3.js not loaded'']\<rparr>)
      | D3_loaded \<Rightarrow>
          (let groupedData = multiSeries_groupedData labels datasets;
               seriesNames = map ds_label datasets;
               v = \<lparr> ms_groupedData = groupedData,
                     ms_bars = map (multiSeries_bars seriesNames) groupedData,
                     ms_seriesNames = seriesNames,
                     ms_colors = coloredDatasets_colors datasets,
                     ms_yAxisTitle = truthy_title yAxisTitle \<rparr>
           in draw_chart containerId (MultiSeriesBars v) p))"

section \<open>\<^verbatim>\<open>createPercentageBarChart\<close> and \<^verbatim>\<open>createMultiColorBarChart\<close>\<close>

text \<open>
  The config of the percentage chart, as far as the drawing reads it. The colours are
  \<^verbatim>\<open>getColors(data.length)\<close> for the colour type \<^verbatim>\<open>'multi'\<close> and the one primary colour
  otherwise; bar \<open>i\<close> takes \<^verbatim>\<open>colors[i % colors.length]\<close>.
\<close>

record percentage_config =
  pc_yAxisTitle :: "string option"
  pc_horizontal :: "bool option"
  pc_colorType :: "string option"

definition percentage_bars :: "string list \<Rightarrow> real list \<Rightarrow> string list \<Rightarrow> single_bar list" where
  "percentage_bars labels data colors =
     map (\<lambda>(d, i). \<lparr> sb_value = d, sb_category = elem_at labels i,
                     sb_fill = elem_at colors (i mod length colors) \<rparr>)
       (zip data [0..<length data])"

definition createPercentageBarChart ::
  "string \<Rightarrow> string list \<Rightarrow> real list \<Rightarrow> percentage_config \<Rightarrow> page
     \<Rightarrow> (js_error + result) \<times> page" where
  "createPercentageBarChart containerId labels data config p =
     (case d3 p of
        D3_undeclared \<Rightarrow> (Inl ReferenceError, p)
      | D3_falsy \<Rightarrow>
          (Inr Null_result, p\<lparr>console := console p @ [console_error ''D3.js not loaded'']\<rparr>)
      | D3_loaded \<Rightarrow>
          (let yAxisTitle = or_default (pc_yAxisTitle config) ''Percentage'';
               horizontal = or_default (pc_horizontal config) False;
               colorType = or_default (pc_colorType config) ''single'';
               colors = (if colorType = ''multi'' then getColors (length data) ''palette''
                         else [CHART_COLORS_primary]);
               v = \<lparr> ss_bars = percentage_bars labels data colors,
                     ss_horizontal = horizontal,
                     ss_yAxisTitle = (if horizontal then None else truthy_title (Some yAxisTitle)) \<rparr>
           in draw_chart containerId (PercentageBars v) p))"

text \<open>The multi-colour chart: bar \<open>i\<close> takes \<^verbatim>\<open>colors[i]\<close> of \<^verbatim>\<open>getColors(data.length)\<close>.\<close>

definition multiColor_bars :: "string list \<Rightarrow> real list \<Rightarrow> single_bar list" where
  "multiColor_bars labels data =
     (let colors = getColors (length data) ''palette''
      in map (\<lambda>(d, i). \<lparr> sb_value = d, sb_category = elem_at labels i,
                         sb_fill = elem_at colors i \<rparr>)
           (zip data [0..<length data]))"

definition createMultiColorBarChart ::
  "string \<Rightarrow> string list \<Rightarrow> real list \<Rightarrow> string option \<Rightarrow> page
     \<Rightarrow> (js_error + result) \<times> page" where
  "createMultiColorBarChart containerId labels data yAxisTitle p =
     (case d3 p of
        D3_undeclared \<Rightarrow> (Inl ReferenceError, p)
      | D3_falsy \<Rightarrow>
          (Inr Null_result, p\<lparr>console := console p @ [console_error ''D3.js not loaded'']\<rparr>)
      | D3_loaded \<Rightarrow>
          (let v = \<lparr> ss_bars = multiColor_bars labels data,
                     ss_horizontal = False,
                     ss_yAxisTitle = truthy_title (Some (or_default yAxisTitle ''Percentage'')) \<rparr>
           in draw_chart containerId (MultiColorBars v) p))"

section \<open>\<^verbatim>\<open>createComparisonBarChart\<close>\<close>

record comparison_config =
  cmpc_label1 :: "string option"
  cmpc_label2 :: "string option"
  cmpc_yAxisTitle :: "string option"
  cmpc_showAsPercentage :: "bool option"
  cmpc_color1 :: "string option"
  cmpc_color2 :: "string option"

text \<open>
  The object literal \<^verbatim>\<open>{ label, [label1]: dataset1[i], [label2]: dataset2[i] }\<close>: a
  computed key makes an own property whatever its name; a later key of the same name
  takes the place of an earlier one.
\<close>

definition comparison_group ::
  "string \<Rightarrow> string \<Rightarrow> real list \<Rightarrow> real list \<Rightarrow> string \<Rightarrow> nat \<Rightarrow> (string \<times> group_entry) list" where
  "comparison_group label1 label2 dataset1 dataset2 label i =
     js_set label2 (GValue (elem_at dataset2 i))
       (js_set label1 (GValue (elem_at dataset1 i)) [(''label'', GLabel label)])"

definition comparison_bars :: "string list \<Rightarrow> (string \<times> group_entry) list \<Rightarrow> bar list" where
  "comparison_bars seriesNames d =
     map (\<lambda>key. \<lparr> bar_key = key, bar_value = read_own d key,
                  bar_label = read_own d ''label'' \<rparr>) seriesNames"

definition createComparisonBarChart ::
  "string \<Rightarrow> string list \<Rightarrow> real list \<Rightarrow> real list \<Rightarrow> comparison_config \<Rightarrow> page
     \<Rightarrow> (js_error + result) \<times> page" where
  "createComparisonBarChart containerId labels dataset1 dataset2 config p =
     (case d3 p of
        D3_undeclared \<Rightarrow> (Inl ReferenceError, p)
      | D3_falsy \<Rightarrow>
          (Inr Null_result, p\<lparr>console := console p @ [console_error ''D3.js not loaded'']\<rparr>)
      | D3_loaded \<Rightarrow>
          (let label1 = or_default (cmpc_label1 config) ''Series 1'';
               label2 = or_default (cmpc_label2 config) ''Series 2'';
               yAxisTitle = or_default (cmpc_yAxisTitle config) ''Value'';
               groupedData =
                 map (\<lambda>(label, i). comparison_group label1 label2 dataset1 dataset2 label i)
                   (zip labels [0..<length labels]);
               seriesNames = [label1, label2];
               v = \<lparr> cmp_groupedData = groupedData,
                     cmp_bars = map (comparison_bars seriesNames) groupedData,
                     cmp_seriesNames = seriesNames,
                     cmp_colors = [or_default (cmpc_color1 config) ''rgba(54,162,235,0.75)'',
                                   or_default (cmpc_color2 config) ''rgba(255,99,132,0.75)''],
                     cmp_yAxisTitle = truthy_title (Some yAxisTitle),
                     cmp_showAsPercentage = or_default (cmpc_showAsPercentage config) False \<rparr>
           in draw_chart containerId (ComparisonBars v) p))"

section \<open>\<^verbatim>\<open>validateChartData\<close>\<close>

text \<open>
  A method of \<^verbatim>\<open>PageBuilder\<close> that no other function of the file calls. It throws
  unless both arguments are arrays, warns when their lengths differ, and returns
  \<^verbatim>\<open>true\<close>. Its only effect is on the console, which it takes and returns.
\<close>

definition validateChartData ::
  "jsval \<Rightarrow> jsval \<Rightarrow> log_entry list \<Rightarrow> (js_error + bool) \<times> log_entry list" where
  "validateChartData labels data out =
     (case (labels, data) of
        (Arr ls, Arr ds) \<Rightarrow>
          (Inr True,
           if length ls \<noteq> length ds
           then out @ [console_warn ''Labels and data arrays have different lengths'']
           else out)
      | _ \<Rightarrow> (Inl (Error ''Labels and data must be arrays''), out))"

section \<open>\<^verbatim>\<open>createPieChart\<close> and \<^verbatim>\<open>createDoughnutChart\<close>\<close>

text \<open>\<^verbatim>\<open>labels.map((label, i) => ({ label, value: data[i] }))\<close>\<close>

definition pieData :: "string list \<Rightarrow> real list \<Rightarrow> (string \<times> real option) list" where
  "pieData labels data =
     map (\<lambda>(label, i). (label, elem_at data i)) (zip labels [0..<length labels])"

text \<open>
  \<^verbatim>\<open>d => d.data.value > 5 ? `${d.data.value.toFixed(1)}%` : ''\<close>; the comparison of
  \<^verbatim>\<open>undefined\<close> with 5 is false.
\<close>

definition slice_label_text :: "real option \<Rightarrow> slice_text" where
  "slice_label_text v =
     (case v of None \<Rightarrow> NoText | Some x \<Rightarrow> if 5 < x then PercentText x else NoText)"

text \<open>
  One slice per entry of \<^verbatim>\<open>pieData\<close>, in its order (the pie generator is built with
  \<^verbatim>\<open>sort(null)\<close>); the angles D3 computes are not part of the model.
\<close>

definition pie_slices_of :: "string list \<Rightarrow> real list \<Rightarrow> pie_slice list" where
  "pie_slices_of labels data =
     (let colors = getColors (length data) ''palette''
      in map (\<lambda>((label, v), i).
                \<lparr> sl_label = label, sl_value = v, sl_fill = elem_at colors i,
                  sl_text = slice_label_text v \<rparr>)
           (zip (pieData labels data) [0..<length (pieData labels data)]))"

definition createPieChart ::
  "string \<Rightarrow> string list \<Rightarrow> real list \<Rightarrow> bool \<Rightarrow> page \<Rightarrow> (js_error + result) \<times> page" where
  "createPieChart containerId labels data showLegend p =
     (case d3 p of
        D3_undeclared \<Rightarrow> (Inl ReferenceError, p)
      | D3_falsy \<Rightarrow>
          (Inr Null_result, p\<lparr>console := console p @ [console_error ''D3.js not loaded'']\<rparr>)
      | D3_loaded \<Rightarrow>
          (let colors = getColors (length data) ''palette'';
               v = \<lparr> pie_slices = pie_slices_of labels data,
                     pie_legend =
                       (if showLegend
                        then Some (map (\<lambda>((label, v), i). (label, elem_at colors i))
                                 (zip (pieData labels data) [0..<length (pieData labels data)]))
                        else None) \<rparr>
           in draw_chart containerId (PieChart v) p))"

text \<open>
  The doughnut: the slices of the pie without their texts, a title above when the config
  gives one, and the legend. The cutout only changes the inner radius.
\<close>

record doughnut_config =
  dnc_showLegend :: "bool option"
  dnc_cutout :: "string option"
  dnc_title :: "string option"

definition doughnut_slices_of :: "string list \<Rightarrow> real list \<Rightarrow> ring_slice list" where
  "doughnut_slices_of labels data =
     (let colors = getColors (length data) ''palette''
      in map (\<lambda>((label, v), i). \<lparr> rs_label = label, rs_value = v, rs_fill = elem_at colors i \<rparr>)
           (zip (pieData labels data) [0..<length (pieData labels data)]))"

definition createDoughnutChart ::
  "string \<Rightarrow> string list \<Rightarrow> real list \<Rightarrow> doughnut_config \<Rightarrow> page
     \<Rightarrow> (js_error + result) \<times> page" where
  "createDoughnutChart containerId labels data config p =
     (case d3 p of
        D3_undeclared \<Rightarrow> (Inl ReferenceError, p)
      | D3_falsy \<Rightarrow>
          (Inr Null_result, p\<lparr>console := console p @ [console_error ''D3.js not loaded'']\<rparr>)
      | D3_loaded \<Rightarrow>
          (let colors = getColors (length data) ''palette'';
               v = \<lparr> dn_slices = doughnut_slices_of labels data,
                     dn_title = truthy_title (Some (or_default (dnc_title config) [])),
                     dn_legend =
                       (if or_default (dnc_showLegend config) True
                        then Some (map (\<lambda>((label, v), i). (label, elem_at colors i))
                                 (zip (pieData labels data) [0..<length (pieData labels data)]))
                        else None) \<rparr>
           in draw_chart containerId (DoughnutChart v) p))"

section \<open>\<^verbatim>\<open>createMultiScaleBarChart\<close>\<close>

text \<open>
  \<^verbatim>\<open>group[dataset.label] = { normalized: dataset.data[i], original: dataset.originalData[i] }\<close>.
  The list holds what a read \<^verbatim>\<open>d[key]\<close> of the group gives; for the key \<^verbatim>\<open>__proto__\<close>
  the assigned object becomes the prototype of the group, and is what that read gives.
\<close>

definition multiScale_group ::
  "normalized_dataset list \<Rightarrow> string \<Rightarrow> nat \<Rightarrow> (string \<times> scale_entry) list" where
  "multiScale_group nds label i =
     fold (\<lambda>dataset group.
             js_set (nd_label dataset)
               (SBar (elem_at (nd_data dataset) i) (elem_at (nd_originalData dataset) i)) group)
       nds [(''label'', SLabel label)]"

definition multiScale_groupedData ::
  "string list \<Rightarrow> normalized_dataset list \<Rightarrow> (string \<times> scale_entry) list list" where
  "multiScale_groupedData labels nds =
     map (\<lambda>(label, i). multiScale_group nds label i) (zip labels [0..<length labels])"

text \<open>
  The renderer. \<^verbatim>\<open>yAxisTitle\<close> defaults to \<^verbatim>\<open>'Assorted Variables'\<close> when the config
  has none. Each group is drawn with one rectangle per series name.
\<close>

definition createMultiScaleBarChart ::
  "string \<Rightarrow> string list \<Rightarrow> dataset list \<Rightarrow> string option \<Rightarrow> page
     \<Rightarrow> (js_error + result) \<times> page" where
  "createMultiScaleBarChart containerId labels datasets yAxisTitle p =
     (case d3 p of
        D3_undeclared \<Rightarrow> (Inl ReferenceError, p)
      | D3_falsy \<Rightarrow>
          (Inr Null_result, p\<lparr>console := console p @ [console_error ''D3.js not loaded'']\<rparr>)
      | D3_loaded \<Rightarrow>
          (let nds = normalizedDatasets datasets;
               v = \<lparr> sc_groupedData = multiScale_groupedData labels nds,
                     sc_seriesNames = map nd_label nds,
                     sc_colors = map nd_backgroundColor nds,
                     sc_yAxisTitle =
                       truthy_title
                         (Some (case yAxisTitle of
                                  None \<Rightarrow> ''Assorted Variables''
                                | Some t \<Rightarrow> t)) \<rparr>
           in draw_chart containerId (MultiScaleBars v) p))"

section \<open>\<^verbatim>\<open>createDataTable\<close>\<close>

text \<open>
  The config after destructuring, every default filled in. \<^verbatim>\<open>formatValue\<close> is
  \<open>None\<close> for \<^verbatim>\<open>null\<close> or anything that is not a function.
\<close>

record table_config =
  cfg_headers :: "string list"
  cfg_title :: string
  cfg_formatValue :: "(jsval \<Rightarrow> nat \<Rightarrow> nat \<Rightarrow> jsval) option"
  cfg_sortable :: bool
  cfg_showIndex :: bool
  cfg_className :: string

text \<open>\<^verbatim>\<open>item => [item.label || item.name || item.key, item.value]\<close>\<close>

definition item_row :: "jsval \<Rightarrow> js_error + jsval" where
  "item_row item =
     (if nullish item then Inl TypeError
      else Inr (Arr [js_or (js_or (js_get item ''label'') (js_get item ''name''))
                       (js_get item ''key''),
                     js_get item ''value'']))"

text \<open>
  \<^verbatim>\<open>data.map(item => ...)\<close> with that callback: the first item that throws ends the
  map.
\<close>

fun object_rows :: "jsval list \<Rightarrow> js_error + jsval list" where
  "object_rows [] = Inr []"
| "object_rows (item # rest) =
     (case item_row item of
        Inl e \<Rightarrow> Inl e
      | Inr row \<Rightarrow>
          (case object_rows rest of Inl e \<Rightarrow> Inl e | Inr rows \<Rightarrow> Inr (row # rows)))"

text \<open>
  \<^verbatim>\<open>labels.map((label, i) => [label, data[i]])\<close>; calling \<^verbatim>\<open>map\<close> on anything but an
  array is a \<^verbatim>\<open>TypeError\<close>.
\<close>

definition parallel_rows :: "jsval \<Rightarrow> jsval list \<Rightarrow> js_error + jsval list" where
  "parallel_rows labels data =
     (case labels of
        Arr ls \<Rightarrow> Inr (map (\<lambda>(label, i). Arr [label, val_at data i]) (zip ls [0..<length ls]))
      | _ \<Rightarrow> Inl TypeError)"

text \<open>
  The row model \<^verbatim>\<open>tableData\<close>, chosen by the first element of \<^verbatim>\<open>data\<close> alone: an array
  (\<^verbatim>\<open>Array.isArray(data[0])\<close>), else an object (\<^verbatim>\<open>typeof data[0] === 'object'\<close>, which
  holds of \<^verbatim>\<open>null\<close> too), else the parallel arrays.
\<close>

definition tableData :: "jsval \<Rightarrow> jsval list \<Rightarrow> js_error + jsval list" where
  "tableData labels data =
     (case val_at data 0 of
        Arr cells \<Rightarrow> Inr data
      | Obj ps \<Rightarrow> object_rows data
      | Null \<Rightarrow> object_rows data
      | _ \<Rightarrow> parallel_rows labels data)"

text \<open>
  The value a cell shows: the caller's formatter for the columns after the first, else
  the default number rules (\<^verbatim>\<open>cellData >= 1000\<close>, then \<^verbatim>\<open>cellData % 1 !== 0\<close>), else
  the value unchanged.
\<close>

definition displayValue ::
  "(jsval \<Rightarrow> nat \<Rightarrow> nat \<Rightarrow> jsval) option \<Rightarrow> jsval \<Rightarrow> nat \<Rightarrow> nat \<Rightarrow> display" where
  "displayValue formatValue cellData i j =
     (case (if 0 < j then formatValue else None) of
        Some f \<Rightarrow> Formatted (f cellData i j)
      | None \<Rightarrow>
          (case cellData of
             Num x \<Rightarrow>
               if 1000 \<le> x then LocaleString x
               else if real_of_int \<lfloor>x\<rfloor> \<noteq> x then Fixed1 x
               else Raw cellData
           | _ \<Rightarrow> Raw cellData))"

definition render_cell ::
  "(jsval \<Rightarrow> nat \<Rightarrow> nat \<Rightarrow> jsval) option \<Rightarrow> nat \<Rightarrow> jsval \<Rightarrow> nat \<Rightarrow> cell" where
  "render_cell formatValue i cellData j =
     \<lparr> c_fontWeight500 = (j = 0),
       c_alignRight = (j \<noteq> 0),
       c_monospace = (j \<noteq> 0 \<and> (case cellData of Num x \<Rightarrow> True | _ \<Rightarrow> False)),
       c_text = displayValue formatValue cellData i j \<rparr>"

text \<open>
  One iteration of \<^verbatim>\<open>tableData.forEach((rowData, i) => ...)\<close>: the row element with its
  background and index cell is appended first; \<^verbatim>\<open>rowData.forEach\<close> then throws a
  \<^verbatim>\<open>TypeError\<close> unless the row is an array.
\<close>

definition render_row :: "table_config \<Rightarrow> nat \<Rightarrow> jsval \<Rightarrow> table_row \<times> js_error option" where
  "render_row cfg i rowData =
     (let row = \<lparr> r_background = (if i mod 2 = 0 then ''white'' else ''#f8f9fa''),
                   r_index = (if cfg_showIndex cfg then Some (i + 1) else None),
                   r_cells = [] \<rparr>
      in case rowData of
           Arr cells \<Rightarrow>
             (row\<lparr>r_cells := map (\<lambda>(cellData, j). render_cell (cfg_formatValue cfg) i cellData j)
                                 (zip cells [0..<length cells])\<rparr>, None)
         | _ \<Rightarrow> (row, Some TypeError))"

fun render_rows ::
  "table_config \<Rightarrow> nat \<Rightarrow> jsval list \<Rightarrow> table_row list \<times> js_error option" where
  "render_rows cfg i [] = ([], None)"
| "render_rows cfg i (rowData # rest) =
     (case render_row cfg i rowData of
        (row, Some e) \<Rightarrow> ([row], Some e)
      | (row, None) \<Rightarrow>
          (case render_rows cfg (Suc i) rest of (rows, e) \<Rightarrow> (row # rows, e)))"

definition table_frame :: "table_config \<Rightarrow> table_row list \<Rightarrow> visual" where
  "table_frame cfg rows =
     DataTable \<lparr> t_title = (if cfg_title cfg = [] then None else Some (cfg_title cfg)),
                 t_className = cfg_className cfg,
                 t_headers = (if cfg_showIndex cfg then [''#''] else []) @ cfg_headers cfg,
                 t_sortable = cfg_sortable cfg,
                 t_rows = rows \<rparr>"

text \<open>
  The renderer. Unlike the chart renderers it has no guard: its first statement calls
  \<^verbatim>\<open>d3.select\<close>, a \<^verbatim>\<open>ReferenceError\<close> when \<^verbatim>\<open>d3\<close> is not declared, a
  \<^verbatim>\<open>TypeError\<close> when it is falsy, and the exception of the select when the selector
  is invalid. An exception later on leaves what was drawn until then.
\<close>

definition createDataTable ::
  "string \<Rightarrow> jsval \<Rightarrow> jsval list \<Rightarrow> table_config \<Rightarrow> page \<Rightarrow> (js_error + result) \<times> page" where
  "createDataTable containerId labels data cfg p =
     (case d3 p of
        D3_undeclared \<Rightarrow> (Inl ReferenceError, p)
      | D3_falsy \<Rightarrow> (Inl TypeError, p)
      | D3_loaded \<Rightarrow>
          (case select_id containerId p of
             Invalid_selector \<Rightarrow> (Inl DOMException, p)
           | container \<Rightarrow>
               (case tableData labels data of
                  Inl e \<Rightarrow> (Inl e, place container (table_frame cfg []) p)
                | Inr rowsData \<Rightarrow>
                    (case render_rows cfg 0 rowsData of
                       (rows, Some e) \<Rightarrow> (Inl e, place container (table_frame cfg rows) p)
                     | (rows, None) \<Rightarrow>
                         (case addRightClickCopyTable containerId
                                 (place container (table_frame cfg rows) p) of
                            Inl e \<Rightarrow> (Inl e, place container (table_frame cfg rows) p)
                          | Inr p1 \<Rightarrow> (Inr Handles, p1))))))"


section \<open>The \<^verbatim>\<open>PageBuilder\<close> class\<close>

text \<open>
  Template literals print a counter in decimal.
\<close>

definition decimal_digits :: string where
  "decimal_digits = ''0123456789''"

function show_nat :: "nat \<Rightarrow> string" where
  "show_nat n =
     (if n < 10 then [decimal_digits ! n]
      else show_nat (n div 10) @ [decimal_digits ! (n mod 10)])"
  by pat_completeness auto
termination
  by (relation "measure (\<lambda>n. n)") auto

declare show_nat.simps [simp del]

text \<open>
  The selectors the library itself uses for a parent: \<^verbatim>\<open>'.report-content'\<close>,
  \<^verbatim>\<open>'.section-content'\<close> and, in \<^verbatim>\<open>buildDemographicsReport\<close>,
  \<^verbatim>\<open>`#${section.id} .section-content`\<close>.
\<close>

datatype selector = Sel_report_content | Sel_section_content | Sel_section_content_of string

text \<open>
  What is appended below a report container: sections and chart containers (by id) and
  content blocks (by class). The strings the source interpolates into \<^verbatim>\<open>innerHTML\<close>
  are taken as text that adds no element.
\<close>

datatype item = SectionEl string | ChartContainerEl string | ContentEl string

text \<open>
  The report container \<^verbatim>\<open>createDocument\<close> builds: its class, and its inner HTML (the
  header and the \<^verbatim>\<open>main.report-content\<close> element with what was appended since), which
  \<^verbatim>\<open>reset\<close> empties.
\<close>

record container_inner =
  ci_title :: string
  ci_subtitle :: "string option"
  ci_content :: "item list"

record container_el =
  ce_class :: string
  ce_inner :: "container_inner option"

text \<open>
  The children of \<^verbatim>\<open>document.body\<close>: a report container, known by the address of its
  element, or any other node.
\<close>

datatype node = ReportContainer nat | OtherNode string

text \<open>
  The fields of the object, and the part of the document it works on: the children of
  \<^verbatim>\<open>body\<close>, the number of style blocks in \<^verbatim>\<open>head\<close>, and the store of container
  elements. \<^verbatim>\<open>currentDocument\<close> is a reference into that store.
\<close>

record builder =
  isInitialized :: bool
  currentDocument :: "nat option"
  chartCounter :: nat
  sectionCounter :: nat
  body :: "node list"
  head_styles :: nat
  elements :: "nat \<rightharpoonup> container_el"
  allocated :: nat

text \<open>The constructor, on a page whose body holds \<open>page_content\<close>.\<close>

definition new_PageBuilder :: "string list \<Rightarrow> builder" where
  "new_PageBuilder page_content =
     \<lparr> isInitialized = False, currentDocument = None, chartCounter = 0, sectionCounter = 0,
       body = map OtherNode page_content, head_styles = 0, elements = Map.empty,
       allocated = 0 \<rparr>"

datatype ret = Ret_unit | Ret_container nat | Ret_id string

text \<open>A config object: a field is \<open>None\<close> when the caller left it out.\<close>

record document_config =
  dc_title :: "string option"
  dc_subtitle :: "string option"
  dc_includeDefaultStyles :: "bool option"
  dc_containerClass :: "string option"

text \<open>
  \<^verbatim>\<open>createDocument\<close>: \<^verbatim>\<open>document.body.innerHTML = ''\<close>, the default styles, the new
  container appended to \<^verbatim>\<open>body\<close> and stored in \<^verbatim>\<open>currentDocument\<close>.
\<close>

definition createDocument :: "document_config \<Rightarrow> builder \<Rightarrow> (js_error + ret) \<times> builder" where
  "createDocument config b =
     (let title = or_default (dc_title config) ''Analysis Report'';
          subtitle = or_default (dc_subtitle config) [];
          includeDefaultStyles = or_default (dc_includeDefaultStyles config) True;
          containerClass = or_default (dc_containerClass config) ''report-container'';
          b1 = b\<lparr>body := []\<rparr>;
          b2 = (if includeDefaultStyles then b1\<lparr>head_styles := head_styles b1 + 1\<rparr> else b1);
          r = allocated b2;
          container =
            \<lparr> ce_class = containerClass,
              ce_inner = Some \<lparr> ci_title = title,
                                ci_subtitle = (if subtitle = [] then None else Some subtitle),
                                ci_content = [] \<rparr> \<rparr>;
          b3 = b2\<lparr>allocated := Suc r, elements := (elements b2)(r \<mapsto> container)\<rparr>;
          b4 = b3\<lparr>body := body b3 @ [ReportContainer r]\<rparr>
      in (Inr (Ret_container r), b4\<lparr>currentDocument := Some r\<rparr>))"

text \<open>Whether \<^verbatim>\<open>querySelector(sel)\<close> finds an element below an intact container.\<close>

definition matches :: "selector \<Rightarrow> item list \<Rightarrow> bool" where
  "matches sel items =
     (case sel of
        Sel_report_content \<Rightarrow> True
      | Sel_section_content \<Rightarrow>
          (\<exists>x \<in> set items. case x of SectionEl i \<Rightarrow> True | _ \<Rightarrow> False)
      | Sel_section_content_of i \<Rightarrow> SectionEl i \<in> set items)"

text \<open>
  \<^verbatim>\<open>parent = currentDocument.querySelector(sel)\<close>, with the fallback
  \<^verbatim>\<open>|| currentDocument.querySelector('.report-content')\<close> where the source has it, and
  \<^verbatim>\<open>parent.appendChild(child)\<close>. A \<^verbatim>\<open>TypeError\<close> when \<^verbatim>\<open>currentDocument\<close> is
  \<^verbatim>\<open>null\<close> or no parent is found; an emptied container has no descendant at all.
\<close>

definition appendChild :: "bool \<Rightarrow> selector \<Rightarrow> item \<Rightarrow> builder \<Rightarrow> js_error + builder" where
  "appendChild fallback sel child b =
     (case currentDocument b of
        None \<Rightarrow> Inl TypeError
      | Some r \<Rightarrow>
          (case elements b r of
             None \<Rightarrow> Inl TypeError
           | Some c \<Rightarrow>
               (case ce_inner c of
                  None \<Rightarrow> Inl TypeError
                | Some inner \<Rightarrow>
                    if fallback \<or> matches sel (ci_content inner)
                    then Inr (b\<lparr>elements := (elements b)
                                 (r \<mapsto> c\<lparr>ce_inner :=
                                    Some (inner\<lparr>ci_content := ci_content inner @ [child]\<rparr>)\<rparr>)\<rparr>)
                    else Inl TypeError)))"

record section_config =
  sc_title :: "string option"
  sc_subtitle :: "string option"
  sc_containerId :: "string option"

text \<open>
  \<^verbatim>\<open>createSection\<close>. The defaults are evaluated in the order of the destructuring and
  only for a missing field: \<^verbatim>\<open>++this.sectionCounter\<close> runs when the config has no
  title, and the default id reads the counter as it then is.
\<close>

definition createSection :: "section_config \<Rightarrow> builder \<Rightarrow> (js_error + ret) \<times> builder" where
  "createSection config b =
     (let b1 = (case sc_title config of
                  None \<Rightarrow> b\<lparr>sectionCounter := sectionCounter b + 1\<rparr>
                | Some t \<Rightarrow> b);
          title = (case sc_title config of
                     None \<Rightarrow> ''Section '' @ show_nat (sectionCounter b1)
                   | Some t \<Rightarrow> t);
          containerId =
            or_default (sc_containerId config) (''section-'' @ show_nat (sectionCounter b1))
      in case appendChild False Sel_report_content (SectionEl containerId) b1 of
           Inl e \<Rightarrow> (Inl e, b1)
         | Inr b2 \<Rightarrow> (Inr (Ret_id containerId), b2))"

record chart_container_config =
  cc_containerId :: "string option"
  cc_title :: "string option"
  cc_parentSelector :: "selector option"

text \<open>
  \<^verbatim>\<open>createChartContainer\<close>: \<^verbatim>\<open>++this.chartCounter\<close> runs when the config has no
  \<^verbatim>\<open>containerId\<close>; the id is returned.
\<close>

definition createChartContainer ::
  "chart_container_config \<Rightarrow> builder \<Rightarrow> (js_error + ret) \<times> builder" where
  "createChartContainer config b =
     (let b1 = (case cc_containerId config of
                  None \<Rightarrow> b\<lparr>chartCounter := chartCounter b + 1\<rparr>
                | Some c \<Rightarrow> b);
          containerId = (case cc_containerId config of
                           None \<Rightarrow> ''chart-'' @ show_nat (chartCounter b1)
                         | Some c \<Rightarrow> c);
          parentSelector = or_default (cc_parentSelector config) Sel_report_content
      in case appendChild True parentSelector (ChartContainerEl containerId) b1 of
           Inl e \<Rightarrow> (Inl e, b1)
         | Inr b2 \<Rightarrow> (Inr (Ret_id containerId), b2))"

text \<open>
  The five content methods (\<^verbatim>\<open>addExecutiveSummary\<close>, \<^verbatim>\<open>addKeyFinding\<close>,
  \<^verbatim>\<open>addRecommendation\<close>, \<^verbatim>\<open>addTextContent\<close>, \<^verbatim>\<open>createContentGrid\<close>) append one
  element of their class; only the first has no fallback parent.
\<close>

definition addContent ::
  "bool \<Rightarrow> string \<Rightarrow> selector \<Rightarrow> builder \<Rightarrow> (js_error + ret) \<times> builder" where
  "addContent fallback className parentSelector b =
     (case appendChild fallback parentSelector (ContentEl className) b of
        Inl e \<Rightarrow> (Inl e, b)
      | Inr b1 \<Rightarrow> (Inr Ret_unit, b1))"

text \<open>
  \<^verbatim>\<open>ensureInitialized\<close>; \<open>d3_available\<close> says whether \<^verbatim>\<open>initialize\<close> finds D3 or
  loads it.
\<close>

definition ensureInitialized :: "bool \<Rightarrow> builder \<Rightarrow> js_error + builder" where
  "ensureInitialized d3_available b =
     (if isInitialized b then Inr b
      else if d3_available then Inr (b\<lparr>isInitialized := True\<rparr>)
      else Inl (Error ''script load failed''))"

record chart_config =
  ch_containerId :: "string option"
  ch_title :: "string option"
  ch_parentSelector :: "selector option"

text \<open>
  What the eight chart methods of the class share (\<^verbatim>\<open>createMultiSeriesChart\<close> to
  \<^verbatim>\<open>createDoughnutChart\<close>): initialise, take
  \<^verbatim>\<open>containerId || this.createChartContainer({ title, parentSelector })\<close>, schedule the
  renderer with \<^verbatim>\<open>setTimeout\<close> and return the id. The deferred drawing is not part of
  the call.
\<close>

definition createChart :: "bool \<Rightarrow> chart_config \<Rightarrow> builder \<Rightarrow> (js_error + ret) \<times> builder" where
  "createChart d3_available config b =
     (case ensureInitialized d3_available b of
        Inl e \<Rightarrow> (Inl e, b)
      | Inr b1 \<Rightarrow>
          (let title = or_default (ch_title config) [];
               parentSelector = or_default (ch_parentSelector config) Sel_section_content
           in case ch_containerId config of
                Some c \<Rightarrow>
                  if c \<noteq> [] then (Inr (Ret_id c), b1)
                  else createChartContainer
                         \<lparr> cc_containerId = None, cc_title = Some title,
                           cc_parentSelector = Some parentSelector \<rparr> b1
              | None \<Rightarrow>
                  createChartContainer
                    \<lparr> cc_containerId = None, cc_title = Some title,
                      cc_parentSelector = Some parentSelector \<rparr> b1))"

text \<open>\<^verbatim>\<open>reset\<close>: empty the current document, if any, and set both counters to 0.\<close>

definition reset :: "builder \<Rightarrow> (js_error + ret) \<times> builder" where
  "reset b =
     (let b1 = (case currentDocument b of
                  None \<Rightarrow> b
                | Some r \<Rightarrow>
                    (case elements b r of
                       None \<Rightarrow> b
                     | Some c \<Rightarrow> b\<lparr>elements := (elements b)(r \<mapsto> c\<lparr>ce_inner := None\<rparr>)\<rparr>))
      in (Inr Ret_unit, b1\<lparr>chartCounter := 0, sectionCounter := 0\<rparr>))"

text \<open>
  The operations of a builder, and a run of them. A caller may catch an exception and go
  on, so a run continues from the state the throwing call left.
\<close>

datatype op =
    CreateDocument document_config
  | CreateSection section_config
  | CreateChartContainer chart_container_config
  | AddExecutiveSummary "selector option"
  | AddKeyFinding "selector option"
  | AddRecommendation "selector option"
  | AddTextContent "selector option"
  | CreateContentGrid "selector option"
  | CreateChart bool chart_config
  | Reset

fun step :: "op \<Rightarrow> builder \<Rightarrow> (js_error + ret) \<times> builder" where
  "step (CreateDocument config) b = createDocument config b"
| "step (CreateSection config) b = createSection config b"
| "step (CreateChartContainer config) b = createChartContainer config b"
| "step (AddExecutiveSummary sel) b =
     addContent False ''executive-summary'' (or_default sel Sel_report_content) b"
| "step (AddKeyFinding sel) b =
     addContent True ''key-finding'' (or_default sel Sel_section_content) b"
| "step (AddRecommendation sel) b =
     addContent True ''recommendation'' (or_default sel Sel_section_content) b"
| "step (AddTextContent sel) b =
     addContent True ''text-content'' (or_default sel Sel_section_content) b"
| "step (CreateContentGrid sel) b =
     addContent True ''content-grid'' (or_default sel Sel_section_content) b"
| "step (CreateChart d3_available config) b = createChart d3_available config b"
| "step Reset b = reset b"

fun run :: "op list \<Rightarrow> builder \<Rightarrow> builder" where
  "run [] b = b"
| "run (x # xs) b = run xs (snd (step x b))"

text \<open>
  The chart container ids a run generates: the ids returned by the calls that had to make
  one up (no \<^verbatim>\<open>containerId\<close> in the config, or a falsy one in a chart method).
\<close>

definition generates_chart_id :: "op \<Rightarrow> bool" where
  "generates_chart_id x =
     (case x of
        CreateChartContainer config \<Rightarrow> cc_containerId config = None
      | CreateChart d3_available config \<Rightarrow>
          (case ch_containerId config of None \<Rightarrow> True | Some c \<Rightarrow> c = [])
      | _ \<Rightarrow> False)"

fun generated_chart_ids :: "op list \<Rightarrow> builder \<Rightarrow> string list" where
  "generated_chart_ids [] b = []"
| "generated_chart_ids (x # xs) b =
     (case step x b of
        (Inr (Ret_id i), b') \<Rightarrow>
          (if generates_chart_id x then [i] else []) @ generated_chart_ids xs b'
      | (_, b') \<Rightarrow> generated_chart_ids xs b')"

fun is_report_container :: "node \<Rightarrow> bool" where
  "is_report_container (ReportContainer r) = True"
| "is_report_container (OtherNode h) = False"

section \<open>The statements to be compared with the code\<close>

text \<open>
  The specification's normalisation rule, in its own words: with \<open>min\<close> and \<open>max\<close> taken
  over the values of one category position across all series, a value becomes 50 if
  \<open>min = max\<close>, else \<open>value / max * 100\<close> if \<open>min \<ge> 0\<close>, else \<open>value / |min| * 100\<close> if
  \<open>max \<le> 0\<close>, else \<open>value / max(|min|, |max|) * 50 + 50\<close>.
\<close>

definition spec_normalized :: "real list \<Rightarrow> real \<Rightarrow> real" where
  "spec_normalized col v =
     (let mn = Min (set col); mx = Max (set col)
      in if mn = mx then 50
         else if 0 \<le> mn then v / mx * 100
         else if mx \<le> 0 then v / \<bar>mn\<bar> * 100
         else v / max \<bar>mn\<bar> \<bar>mx\<bar> * 50 + 50)"

text \<open>The values at category position \<open>i\<close> across all series.\<close>

definition column :: "dataset list \<Rightarrow> nat \<Rightarrow> real list" where
  "column datasets i = map (\<lambda>ds. ds_data ds ! i) datasets"

text \<open>A normalized value that is a number between 0 and 100.\<close>

fun in_0_100 :: "jsnum \<Rightarrow> bool" where
  "in_0_100 (Fin v) = (0 \<le> v \<and> v \<le> 100)"
| "in_0_100 _ = False"

text \<open>
  Two series with the columns \<open>[-10, 20]\<close> and \<open>[7, 7]\<close>, two series whose only column
  is \<open>[-10, -5]\<close>, and two series of different lengths.
\<close>

definition example_datasets :: "dataset list" where
  "example_datasets =
     [\<lparr> ds_label = ''A'', ds_data = [-10, 7], ds_backgroundColor = None \<rparr>,
      \<lparr> ds_label = ''B'', ds_data = [20, 7], ds_backgroundColor = None \<rparr>]"

definition negative_datasets :: "dataset list" where
  "negative_datasets =
     [\<lparr> ds_label = ''A'', ds_data = [-10], ds_backgroundColor = None \<rparr>,
      \<lparr> ds_label = ''B'', ds_data = [-5], ds_backgroundColor = None \<rparr>]"

definition ragged_datasets :: "dataset list" where
  "ragged_datasets =
     [\<lparr> ds_label = ''A'', ds_data = [1, 2], ds_backgroundColor = None \<rparr>,
      \<lparr> ds_label = ''B'', ds_data = [3], ds_backgroundColor = None \<rparr>]"

text \<open>
  A logical table is a sequence of rows \<open>(label, value)\<close>, a value being a number or a
  string. Its three input shapes: parallel arrays of labels and values, an array of
  pairs, and an array of records \<^verbatim>\<open>{label, value}\<close>; and the row model
  \<^verbatim>\<open>[label, value]\<close> they are meant to share.
\<close>

datatype scalar = SNum real | SStr string

fun scalar_val :: "scalar \<Rightarrow> jsval" where
  "scalar_val (SNum x) = Num x"
| "scalar_val (SStr s) = Str s"

definition row_model :: "(string \<times> scalar) list \<Rightarrow> jsval list" where
  "row_model rows = map (\<lambda>(l, v). Arr [Str l, scalar_val v]) rows"

definition parallel_labels :: "(string \<times> scalar) list \<Rightarrow> jsval" where
  "parallel_labels rows = Arr (map (\<lambda>(l, v). Str l) rows)"

definition parallel_data :: "(string \<times> scalar) list \<Rightarrow> jsval list" where
  "parallel_data rows = map (\<lambda>(l, v). scalar_val v) rows"

definition pair_rows :: "(string \<times> scalar) list \<Rightarrow> jsval list" where
  "pair_rows rows = map (\<lambda>(l, v). Arr [Str l, scalar_val v]) rows"

definition keyed_records :: "(string \<times> scalar) list \<Rightarrow> jsval list" where
  "keyed_records rows =
     map (\<lambda>(l, v). Obj [(''label'', Str l), (''value'', scalar_val v)]) rows"

definition example_table :: "(string \<times> scalar) list" where
  "example_table = [(''Owner-occupied (%)'', SNum 75.6), (''Region'', SStr ''West'')]"

text \<open>
  A page with D3 loaded and one empty container, where every selector that is not a
  plain id is refused, and a series shorter than the two labels it is drawn against.
\<close>

definition loaded_page :: page where
  "loaded_page =
     \<lparr> d3 = D3_loaded, console = [], containers = [ById ''chart-1'' \<mapsto> []],
       foreign_select = (\<lambda>s. Invalid_selector), overlays = [] \<rparr>"

definition short_series :: "dataset list" where
  "short_series = [\<lparr> ds_label = ''S'', ds_data = [1], ds_backgroundColor = None \<rparr>]"

text \<open>
  The input of a chart, by chart type: the arguments its renderer is called with in the
  timer the chart method of that type sets (labels, data series, config). A table is
  given its labels and one series of numbers as parallel arrays, with its headers and
  its title; the rest of its config is what the table method passes on for a caller who
  gives no formatter.
\<close>

datatype chart_input =
    MultiSeries "string list" "dataset list" "string option"
  | Percentage "string list" "real list" percentage_config
  | MultiColor "string list" "real list" "string option"
  | Comparison "string list" "real list" "real list" comparison_config
  | Pie "string list" "real list" bool
  | Doughnut "string list" "real list" doughnut_config
  | MultiScale "string list" "dataset list" "string option"
  | Table "string list" "real list" "string list" string

fun render :: "string \<Rightarrow> chart_input \<Rightarrow> page \<Rightarrow> (js_error + result) \<times> page" where
  "render containerId (MultiSeries labels datasets yAxisTitle) p =
     createMultiSeriesBarChart containerId labels datasets yAxisTitle p"
| "render containerId (Percentage labels data config) p =
     createPercentageBarChart containerId labels data config p"
| "render containerId (MultiColor labels data yAxisTitle) p =
     createMultiColorBarChart containerId labels data yAxisTitle p"
| "render containerId (Comparison labels dataset1 dataset2 config) p =
     createComparisonBarChart containerId labels dataset1 dataset2 config p"
| "render containerId (Pie labels data showLegend) p =
     createPieChart containerId labels data showLegend p"
| "render containerId (Doughnut labels data config) p =
     createDoughnutChart containerId labels data config p"
| "render containerId (MultiScale labels datasets yAxisTitle) p =
     createMultiScaleBarChart containerId labels datasets yAxisTitle p"
| "render containerId (Table labels data headers title) p =
     createDataTable containerId (Arr (map Str labels)) (map Num data)
       \<lparr> cfg_headers = headers, cfg_title = title, cfg_formatValue = None,
         cfg_sortable = False, cfg_showIndex = False, cfg_className = ''data-table'' \<rparr> p"

text \<open>
  The positions of a drawing in the order they are drawn (bars group by group, slices,
  table rows), each with the number it stands for: the value of the bar or slice, the
  original value of a normalized bar, the number in the value cell of a row. A position
  that stands for no number (the value is \<^verbatim>\<open>undefined\<close>, or not a number) has \<open>None\<close>.
\<close>

fun entry_value :: "group_entry \<Rightarrow> real option" where
  "entry_value (GValue x) = x"
| "entry_value _ = None"

fun original_value :: "scale_entry option \<Rightarrow> real option" where
  "original_value (Some (SBar n original)) = original"
| "original_value _ = None"

fun shown_number :: "display \<Rightarrow> real option" where
  "shown_number (Raw (Num x)) = Some x"
| "shown_number (LocaleString x) = Some x"
| "shown_number (Fixed1 x) = Some x"
| "shown_number _ = None"

fun row_value :: "table_row \<Rightarrow> real option" where
  "row_value r = (case r_cells r of [l, c] \<Rightarrow> shown_number (c_text c) | _ \<Rightarrow> None)"

fun positions :: "visual \<Rightarrow> real option list" where
  "positions (MultiSeriesBars v) = concat (map (map (\<lambda>b. entry_value (bar_value b))) (ms_bars v))"
| "positions (PercentageBars v) = map (\<lambda>b. Some (sb_value b)) (ss_bars v)"
| "positions (MultiColorBars v) = map (\<lambda>b. Some (sb_value b)) (ss_bars v)"
| "positions (ComparisonBars v) = concat (map (map (\<lambda>b. entry_value (bar_value b))) (cmp_bars v))"
| "positions (PieChart v) = map sl_value (pie_slices v)"
| "positions (DoughnutChart v) = map rs_value (dn_slices v)"
| "positions (MultiScaleBars v) =
     concat (map (\<lambda>d. map (\<lambda>key. original_value (map_of d key)) (sc_seriesNames v))
               (sc_groupedData v))"
| "positions (DataTable v) = map row_value (t_rows v)"

text \<open>
  The positions a chart input asks for. The grouped bar charts have one position per
  label and series, the pie, the doughnut and the table one per label, each position
  \<open>i\<close> of a series holding the value \<^verbatim>\<open>series[i]\<close>, which is nothing past the end of a
  shorter series; values past the last label are not drawn. The percentage and the
  multi-colour bar chart have one position per data value, whatever the labels.
\<close>

fun expected_positions :: "chart_input \<Rightarrow> real option list" where
  "expected_positions (MultiSeries labels datasets yAxisTitle) =
     concat (map (\<lambda>i. map (\<lambda>dataset. elem_at (ds_data dataset) i) datasets)
               [0..<length labels])"
| "expected_positions (Percentage labels data config) = map Some data"
| "expected_positions (MultiColor labels data yAxisTitle) = map Some data"
| "expected_positions (Comparison labels dataset1 dataset2 config) =
     concat (map (\<lambda>i. [elem_at dataset1 i, elem_at dataset2 i]) [0..<length labels])"
| "expected_positions (Pie labels data showLegend) = map (elem_at data) [0..<length labels]"
| "expected_positions (Doughnut labels data config) = map (elem_at data) [0..<length labels]"
| "expected_positions (MultiScale labels datasets yAxisTitle) =
     concat (map (\<lambda>i. map (\<lambda>dataset. elem_at (ds_data dataset) i) datasets)
               [0..<length labels])"
| "expected_positions (Table labels data headers title) =
     map (elem_at data) [0..<length labels]"

text \<open>
  The inputs whose positions can be told apart: the series of a grouped chart have
  labels that differ from one another and from the key \<^verbatim>\<open>label\<close> (and from
  \<^verbatim>\<open>__proto__\<close> where the group is filled by assignment of numbers).
\<close>

fun well_keyed :: "chart_input \<Rightarrow> bool" where
  "well_keyed (MultiSeries labels datasets yAxisTitle) =
     distinct (''label'' # ''__proto__'' # map ds_label datasets)"
| "well_keyed (MultiScale labels datasets yAxisTitle) =
     distinct (''label'' # map ds_label datasets)"
| "well_keyed (Comparison labels dataset1 dataset2 config) =
     distinct [''label'', or_default (cmpc_label1 config) ''Series 1'',
               or_default (cmpc_label2 config) ''Series 2'']"
| "well_keyed _ = True"

text \<open>Calls with an empty config object, and a section config that gives a title.\<close>

definition no_document_config :: document_config where
  "no_document_config =
     \<lparr> dc_title = None, dc_subtitle = None, dc_includeDefaultStyles = None,
       dc_containerClass = None \<rparr>"

definition no_chart_container_config :: chart_container_config where
  "no_chart_container_config =
     \<lparr> cc_containerId = None, cc_title = None, cc_parentSelector = None \<rparr>"

definition titled_section :: "string \<Rightarrow> section_config" where
  "titled_section t = \<lparr> sc_title = Some t, sc_subtitle = None, sc_containerId = None \<rparr>"

chapter \<open>Properties\<close>

section \<open>Colour assignment\<close>

lemma palette_length: "length CHART_COLORS_palette = 15"
  by (simp add: CHART_COLORS_palette_def)

lemma getColors_loop_eq:
  "getColors_loop count i colors =
     colors @ map (\<lambda>k. CHART_COLORS_palette ! (k mod 15)) [i..<count]"
proof (induction count i colors rule: getColors_loop.induct)
  case (1 count i colors)
  show ?case
  proof (cases "i < count")
    case True
    then have "[i..<count] = i # [Suc i..<count]"
      by (simp add: upt_conv_Cons)
    with True "1" show ?thesis
      by (subst getColors_loop.simps) (simp add: palette_length)
  next
    case False
    then show ?thesis
      by (subst getColors_loop.simps) simp
  qed
qed

text \<open>
  Claim C6. In palette mode (any type other than \<^verbatim>\<open>'gender'\<close>) \<open>getColors\<close> returns
  exactly \<open>n\<close> colours, the \<open>i\<close>-th being entry \<open>i mod 15\<close> of the fixed palette of 15
  colours; the result is a function of \<open>n\<close> alone. In gender mode it returns exactly the
  male and the female colour, in this order, whatever \<open>n\<close> is. The function is total:
  the loop terminates and no branch raises.
\<close>

theorem getColors_contract:
  "length CHART_COLORS_palette = 15 \<and>
   getColors n ''gender'' = [CHART_COLORS_gender_male, CHART_COLORS_gender_female] \<and>
   (type \<noteq> ''gender'' \<longrightarrow>
      getColors n type = map (\<lambda>i. CHART_COLORS_palette ! (i mod 15)) [0..<n] \<and>
      length (getColors n type) = n \<and>
      (\<forall>i<n. getColors n type ! i = CHART_COLORS_palette ! (i mod 15)))"
  by (simp add: getColors_def getColors_loop_eq palette_length)

text \<open>
  Seventeen colours in palette mode: the seventeenth is the second palette entry again;
  gender mode gives the two gender colours.
\<close>

theorem getColors_contract_witness:
  "''palette'' \<noteq> ''gender'' \<and>
   length (getColors 17 ''palette'') = 17 \<and>
   getColors 17 ''palette'' ! 16 = ''#2ecc71'' \<and>
   getColors 17 ''gender'' = [''#4a90e2'', ''#50e3c2'']"
proof -
  have ne: "''palette'' \<noteq> ''gender''" by simp
  have idx: "(16::nat) < 17" by simp
  from getColors_contract [of 17 "''palette''"] ne
  have len: "length (getColors 17 ''palette'') = 17"
    and nth: "\<forall>i<17. getColors 17 ''palette'' ! i = CHART_COLORS_palette ! (i mod 15)"
    by blast+
  from nth idx have "getColors 17 ''palette'' ! 16 = CHART_COLORS_palette ! (16 mod 15)"
    by blast
  then have c16: "getColors 17 ''palette'' ! 16 = ''#2ecc71''"
    by (simp add: CHART_COLORS_palette_def)
  from getColors_contract [of 17 "''palette''"]
  have "getColors 17 ''gender'' = [''#4a90e2'', ''#50e3c2'']"
    by (simp add: CHART_COLORS_gender_male_def CHART_COLORS_gender_female_def)
  with ne len c16 show ?thesis by simp
qed

section \<open>The multi-scale normalisation\<close>

lemma normalize_loop_eq:
  "normalize_loop datasets originalData i acc =
     acc @ map (normalizeValue datasets originalData) [i..<length originalData]"
proof (induction datasets originalData i acc rule: normalize_loop.induct)
  case (1 datasets originalData i acc)
  show ?case
  proof (cases "i < length originalData")
    case True
    then have "[i..<length originalData] = i # [Suc i..<length originalData]"
      by (simp add: upt_conv_Cons)
    with True "1" show ?thesis
      by (subst normalize_loop.simps) simp
  next
    case False
    then show ?thesis
      by (subst normalize_loop.simps) simp
  qed
qed

lemma Math_min_Fin:
  "xs \<noteq> [] \<Longrightarrow> Math_min (map Fin xs) = Fin (Min (set xs))"
proof (induction xs)
  case Nil
  then show ?case by simp
next
  case (Cons x xs)
  show ?case
  proof (cases "xs = []")
    case True
    then show ?thesis by (simp add: js_min2_def)
  next
    case False
    with Cons have "Math_min (map Fin xs) = Fin (Min (set xs))" by simp
    with False show ?thesis
      by (auto simp: js_min2_def min_def)
  qed
qed

lemma Math_max_Fin:
  "xs \<noteq> [] \<Longrightarrow> Math_max (map Fin xs) = Fin (Max (set xs))"
proof (induction xs)
  case Nil
  then show ?case by simp
next
  case (Cons x xs)
  show ?case
  proof (cases "xs = []")
    case True
    then show ?thesis by (simp add: js_max2_def)
  next
    case False
    with Cons have "Math_max (map Fin xs) = Fin (Max (set xs))" by simp
    with False show ?thesis
      by (auto simp: js_max2_def max_def)
  qed
qed

lemma values_for_variable:
  assumes "\<forall>ds\<in>set datasets. length (ds_data ds) = n" and "i < n"
  shows "map (\<lambda>ds. num_at (ds_data ds) i) datasets = map Fin (column datasets i)"
  using assms by (simp add: column_def num_at_def)

lemma normalizeValue_equal_lengths:
  assumes len: "\<forall>ds\<in>set datasets. length (ds_data ds) = n"
    and i: "i < n" and ne: "datasets \<noteq> []" and od: "i < length originalData"
  shows "normalizeValue datasets originalData i =
           Fin (spec_normalized (column datasets i) (originalData ! i))"
proof -
  let ?col = "column datasets i"
  have col_ne: "?col \<noteq> []" using ne by (simp add: column_def)
  have vals: "map (\<lambda>ds. num_at (ds_data ds) i) datasets = map Fin ?col"
    using len i by (rule values_for_variable)
  have mn: "Math_min (map Fin ?col) = Fin (Min (set ?col))"
    using col_ne by (rule Math_min_Fin)
  have mx: "Math_max (map Fin ?col) = Fin (Max (set ?col))"
    using col_ne by (rule Math_max_Fin)
  have le: "Min (set ?col) \<le> Max (set ?col)"
  proof -
    from col_ne obtain x where x: "x \<in> set ?col" by (cases ?col) auto
    then have "Min (set ?col) \<le> x" and "x \<le> Max (set ?col)" by simp_all
    then show ?thesis by (rule order_trans)
  qed
  show ?thesis
    unfolding normalizeValue_def vals mn mx spec_normalized_def Let_def
    using od le
    by (auto simp: js_strict_eq_def num_at_def js_max2_def max_def)
qed

lemma nd_data_normalizedDatasets:
  assumes "k < length datasets"
  shows "nd_data (normalizedDatasets datasets ! k) =
           map (normalizeValue datasets (ds_data (datasets ! k)))
             [0..<length (ds_data (datasets ! k))]"
  using assms
  by (simp add: normalizedDatasets_def normalizeDataset_def normalize_loop_eq Let_def)

lemma nd_data_nth_spec:
  assumes "\<forall>ds\<in>set datasets. length (ds_data ds) = n"
    and "k < length datasets" and "i < n"
  shows "nd_data (normalizedDatasets datasets ! k) ! i =
           Fin (spec_normalized (column datasets i) (ds_data (datasets ! k) ! i))"
proof -
  have lk: "length (ds_data (datasets ! k)) = n"
    using assms(1,2) by simp
  have ne: "datasets \<noteq> []" using assms(2) by auto
  have "nd_data (normalizedDatasets datasets ! k) ! i =
          normalizeValue datasets (ds_data (datasets ! k)) i"
    using assms(2,3) lk by (simp add: nd_data_normalizedDatasets)
  also have "\<dots> = Fin (spec_normalized (column datasets i) (ds_data (datasets ! k) ! i))"
    using assms(1) assms(3) ne lk
    by (intro normalizeValue_equal_lengths[where n = n]) simp_all
  finally show ?thesis .
qed

text \<open>
  Claim C1. For datasets of equal length \<open>n\<close>, the normalized value of series \<open>k\<close> at
  category position \<open>i\<close> is the specification's rule applied to the column at \<open>i\<close>: 50 if
  the column's minimum equals its maximum, else \<open>value / max * 100\<close> if \<open>min \<ge> 0\<close>, else
  \<open>value / |min| * 100\<close> if \<open>max \<le> 0\<close>, else \<open>value / max(|min|, |max|) * 50 + 50\<close>.
\<close>

theorem normalized_value_formula:
  assumes "\<forall>ds\<in>set datasets. length (ds_data ds) = n"
    and "k < length datasets" and "i < n"
  shows "nd_data (normalizedDatasets datasets ! k) ! i =
           Fin (spec_normalized (column datasets i) (ds_data (datasets ! k) ! i))"
  using assms by (rule nd_data_nth_spec)

lemma example_column0: "column example_datasets 0 = [-10, 20]"
  by (simp add: column_def example_datasets_def)

lemma example_column1: "column example_datasets (Suc 0) = [7, 7]"
  by (simp add: column_def example_datasets_def)

text \<open>
  The two columns the specification names: \<open>[-10, 20]\<close> normalizes to \<open>[25, 100]\<close> and
  \<open>[7, 7]\<close> to \<open>[50, 50]\<close>.
\<close>

theorem normalized_value_formula_witness:
  "nd_data (normalizedDatasets example_datasets ! 0) ! 0 = Fin 25 \<and>
   nd_data (normalizedDatasets example_datasets ! 1) ! 0 = Fin 100 \<and>
   nd_data (normalizedDatasets example_datasets ! 0) ! 1 = Fin 50 \<and>
   nd_data (normalizedDatasets example_datasets ! 1) ! 1 = Fin 50"
proof -
  have len: "\<forall>ds\<in>set example_datasets. length (ds_data ds) = 2"
    by (simp add: example_datasets_def)
  have k0: "0 < length example_datasets" and k1: "1 < length example_datasets"
    by (simp_all add: example_datasets_def)
  have d00: "ds_data (example_datasets ! 0) ! 0 = -10"
    and d10: "ds_data (example_datasets ! Suc 0) ! 0 = 20"
    and d01: "ds_data (example_datasets ! 0) ! Suc 0 = 7"
    and d11: "ds_data (example_datasets ! Suc 0) ! Suc 0 = 7"
    by (simp_all add: example_datasets_def)
  have s1: "spec_normalized [-10, 20] (-10) = 25"
    and s2: "spec_normalized [-10, 20] 20 = 100"
    and s3: "spec_normalized [7, 7] 7 = 50"
    by (simp_all add: spec_normalized_def)
  have "nd_data (normalizedDatasets example_datasets ! 0) ! 0 = Fin 25"
    using normalized_value_formula [OF len k0, of 0] by (simp add: example_column0 d00 s1)
  moreover have "nd_data (normalizedDatasets example_datasets ! 1) ! 0 = Fin 100"
    using normalized_value_formula [OF len k1, of 0] by (simp add: example_column0 d10 s2)
  moreover have "nd_data (normalizedDatasets example_datasets ! 0) ! 1 = Fin 50"
    using normalized_value_formula [OF len k0, of 1] by (simp add: example_column1 d01 s3)
  moreover have "nd_data (normalizedDatasets example_datasets ! 1) ! 1 = Fin 50"
    using normalized_value_formula [OF len k1, of 1] by (simp add: example_column1 d11 s3)
  ultimately show ?thesis by simp
qed

lemma negative_normalized:
  "map nd_data (normalizedDatasets negative_datasets) = [[Fin (-100)], [Fin (-50)]]"
  by (simp add: negative_datasets_def normalizedDatasets_def normalizeDataset_def
      normalize_loop_eq normalizeValue_def num_at_def js_min2_def js_max2_def
      js_strict_eq_def Let_def)

lemma negative_first: "nd_data (normalizedDatasets negative_datasets ! 0) = [Fin (-100)]"
proof -
  have "length (normalizedDatasets negative_datasets) = 2"
    by (simp add: normalizedDatasets_def negative_datasets_def)
  then have "nd_data (normalizedDatasets negative_datasets ! 0) =
               map nd_data (normalizedDatasets negative_datasets) ! 0"
    by simp
  then show ?thesis by (simp add: negative_normalized)
qed

lemma ragged_first: "nd_data (normalizedDatasets ragged_datasets ! 0) = [Fin (100 / 3), NaN]"
proof -
  have "map nd_data (normalizedDatasets ragged_datasets) = [[Fin (100 / 3), NaN], [Fin 100]]"
    by (simp add: ragged_datasets_def normalizedDatasets_def normalizeDataset_def
        normalize_loop_eq normalizeValue_def num_at_def js_min2_def js_max2_def
        js_strict_eq_def Let_def)
  moreover have "length (normalizedDatasets ragged_datasets) = 2"
    by (simp add: normalizedDatasets_def ragged_datasets_def)
  ultimately show ?thesis
    by (metis nth_map nth_Cons_0 zero_less_numeral)
qed

text \<open>
  Against claim C2 as stated: in the column \<open>[-10, -5]\<close> (all values negative) the first
  series normalizes to \<open>-10 / |-10| * 100 = -100\<close>, which is not in \<open>[0, 100]\<close>. And where
  the series differ in length, a position that a shorter series lacks normalizes to
  \<^verbatim>\<open>NaN\<close>, which is in no range.
\<close>

theorem normalized_range_counterexample:
  "nd_data (normalizedDatasets negative_datasets ! 0) ! 0 = Fin (-100) \<and>
   \<not> in_0_100 (nd_data (normalizedDatasets negative_datasets ! 0) ! 0) \<and>
   nd_data (normalizedDatasets ragged_datasets ! 0) ! 1 = NaN \<and>
   \<not> in_0_100 (nd_data (normalizedDatasets ragged_datasets ! 0) ! 1)"
  by (simp add: negative_first ragged_first)

lemma spec_formula_bounds:
  assumes v: "v \<in> set col"
  shows "(if Max (set col) \<le> 0 \<and> Min (set col) < Max (set col)
          then -100 \<le> spec_normalized col v \<and> spec_normalized col v \<le> 0
          else 0 \<le> spec_normalized col v \<and> spec_normalized col v \<le> 100)"
proof -
  let ?mn = "Min (set col)" and ?mx = "Max (set col)"
  have lo: "?mn \<le> v" and hi: "v \<le> ?mx" using v by simp_all
  consider (eq) "?mn = ?mx" | (pos) "?mn \<noteq> ?mx" "0 \<le> ?mn"
    | (neg) "?mn \<noteq> ?mx" "?mn < 0" "?mx \<le> 0" | (mixed) "?mn < 0" "0 < ?mx"
    by linarith
  then show ?thesis
  proof cases
    case eq
    then show ?thesis by (simp add: spec_normalized_def)
  next
    case pos
    with lo hi have "0 < ?mx" "0 \<le> v" by linarith+
    with pos hi show ?thesis
      by (simp add: spec_normalized_def Let_def divide_le_eq)
  next
    case neg
    with lo hi have lt: "?mn < ?mx" by linarith
    define q where "q = v / (- ?mn)"
    have s: "spec_normalized col v = q * 100"
      using neg by (simp add: spec_normalized_def Let_def q_def)
    have "v \<le> 0" using neg hi by linarith
    then have "0 \<le> v / ?mn" using neg by (simp add: zero_le_divide_iff)
    then have q0: "q \<le> 0" by (simp add: q_def)
    have q1: "-1 \<le> q" using neg lo by (simp add: q_def le_divide_eq)
    from q0 q1 have "-100 \<le> q * 100 \<and> q * 100 \<le> 0" by simp
    with neg lt show ?thesis by (simp only: s if_True simp_thms)
  next
    case mixed
    define q where "q = v / max \<bar>?mn\<bar> \<bar>?mx\<bar>"
    let ?M = "max \<bar>?mn\<bar> \<bar>?mx\<bar>"
    have M: "0 < ?M" "v \<le> ?M" "- ?M \<le> v" using mixed lo hi by (simp_all add: max_def)
    have s: "spec_normalized col v = q * 50 + 50"
      using mixed by (simp add: spec_normalized_def Let_def q_def)
    have q0: "q \<le> 1" using M by (simp add: q_def divide_le_eq)
    have q1: "-1 \<le> q" using M by (simp add: q_def le_divide_eq)
    from q0 q1 have r: "0 \<le> q * 50 + 50 \<and> q * 50 + 50 \<le> 100" by simp
    from mixed have "\<not> (?mx \<le> 0 \<and> ?mn < ?mx)" by simp
    with r show ?thesis by (simp only: s if_False simp_thms)
  qed
qed

text \<open>
  Claim C2, amended. For datasets of equal length every normalized value is a finite
  number. It lies in \<open>[0, 100]\<close>, except in a column whose values are all \<open>\<le> 0\<close> and not
  all equal: there \<open>value / |min| * 100\<close> lies in \<open>[-100, 0]\<close>.
\<close>

theorem normalized_range:
  assumes "\<forall>ds\<in>set datasets. length (ds_data ds) = n"
    and "k < length datasets" and "i < n"
  shows "\<exists>v. nd_data (normalizedDatasets datasets ! k) ! i = Fin v \<and>
           (if Max (set (column datasets i)) \<le> 0 \<and>
               Min (set (column datasets i)) < Max (set (column datasets i))
            then -100 \<le> v \<and> v \<le> 0
            else 0 \<le> v \<and> v \<le> 100)"
proof -
  have "ds_data (datasets ! k) ! i \<in> set (column datasets i)"
    using assms(2) by (auto simp: column_def)
  then have "if Max (set (column datasets i)) \<le> 0 \<and>
               Min (set (column datasets i)) < Max (set (column datasets i))
            then -100 \<le> spec_normalized (column datasets i) (ds_data (datasets ! k) ! i) \<and>
                 spec_normalized (column datasets i) (ds_data (datasets ! k) ! i) \<le> 0
            else 0 \<le> spec_normalized (column datasets i) (ds_data (datasets ! k) ! i) \<and>
                 spec_normalized (column datasets i) (ds_data (datasets ! k) ! i) \<le> 100"
    by (rule spec_formula_bounds)
  moreover have "nd_data (normalizedDatasets datasets ! k) ! i =
      Fin (spec_normalized (column datasets i) (ds_data (datasets ! k) ! i))"
    using assms by (rule nd_data_nth_spec)
  ultimately show ?thesis by blast
qed

text \<open>
  The mixed column \<open>[-10, 20]\<close> stays in \<open>[0, 100]\<close>; the negative column \<open>[-10, -5]\<close> lands
  in \<open>[-100, 0]\<close>.
\<close>

theorem normalized_range_witness:
  "(\<exists>v. nd_data (normalizedDatasets example_datasets ! 0) ! 0 = Fin v \<and> 0 \<le> v \<and> v \<le> 100) \<and>
   (\<exists>v. nd_data (normalizedDatasets negative_datasets ! 0) ! 0 = Fin v \<and> -100 \<le> v \<and> v \<le> 0)"
proof -
  have len: "\<forall>ds\<in>set example_datasets. length (ds_data ds) = 2"
    by (simp add: example_datasets_def)
  have k0: "0 < length example_datasets" by (simp add: example_datasets_def)
  have nlen: "\<forall>ds\<in>set negative_datasets. length (ds_data ds) = 1"
    by (simp add: negative_datasets_def)
  have nk0: "0 < length negative_datasets" by (simp add: negative_datasets_def)
  have ncol: "column negative_datasets 0 = [-10, -5]"
    by (simp add: column_def negative_datasets_def)
  from normalized_range [OF len k0, of 0]
  have "\<exists>v. nd_data (normalizedDatasets example_datasets ! 0) ! 0 = Fin v \<and> 0 \<le> v \<and> v \<le> 100"
    by (simp add: example_column0)
  moreover from normalized_range [OF nlen nk0, of 0]
  have "\<exists>v. nd_data (normalizedDatasets negative_datasets ! 0) ! 0 = Fin v \<and> -100 \<le> v \<and> v \<le> 0"
    by (simp add: ncol)
  ultimately show ?thesis by simp
qed

lemma map_fst_zip_upt: "map (\<lambda>x. f (fst x)) (zip xs [0..<length xs]) = map f xs"
  by (rule nth_equalityI) simp_all

lemma normalizedDatasets_fields:
  "map nd_originalData (normalizedDatasets datasets) = map ds_data datasets"
  "map nd_label (normalizedDatasets datasets) = map ds_label datasets"
  by (simp_all add: normalizedDatasets_def normalizeDataset_def Let_def case_prod_beta comp_def
      map_fst_zip_upt)

lemma fold_js_set_fresh:
  assumes "distinct (map fst acc @ map fst kvs)"
  shows "fold (\<lambda>kv group. js_set (fst kv) (snd kv) group) kvs acc = acc @ kvs"
  using assms
proof (induction kvs arbitrary: acc)
  case Nil
  then show ?case by simp
next
  case (Cons kv kvs)
  have fresh: "fst kv \<notin> fst ` set acc" using Cons.prems by auto
  have app: "js_set (fst kv) (snd kv) acc = acc @ [kv]"
    if "fst kv \<notin> fst ` set acc" for acc :: "('a \<times> 'b) list"
    using that by (induction acc) auto
  have "distinct (map fst (acc @ [kv]) @ map fst kvs)" using Cons.prems by auto
  then have "fold (\<lambda>kv group. js_set (fst kv) (snd kv) group) kvs (acc @ [kv]) = (acc @ [kv]) @ kvs"
    by (rule Cons.IH)
  then show ?case by (simp add: app [OF fresh])
qed

lemma multiScale_group_distinct:
  assumes "distinct (''label'' # map nd_label nds)"
  shows "multiScale_group nds label i =
           (''label'', SLabel label) #
           map (\<lambda>d. (nd_label d, SBar (elem_at (nd_data d) i) (elem_at (nd_originalData d) i))) nds"
proof -
  let ?kvs = "map (\<lambda>d. (nd_label d, SBar (elem_at (nd_data d) i) (elem_at (nd_originalData d) i))) nds"
  have "multiScale_group nds label i =
          fold (\<lambda>kv group. js_set (fst kv) (snd kv) group) ?kvs [(''label'', SLabel label)]"
    by (simp add: multiScale_group_def fold_map comp_def)
  also have "\<dots> = [(''label'', SLabel label)] @ ?kvs"
    using assms by (intro fold_js_set_fresh) (simp add: comp_def)
  finally show ?thesis by simp
qed

lemma tooltip_original:
  assumes d: "distinct (''label'' # map ds_label datasets)"
    and k: "k < length datasets" and i: "i < length labels"
  shows "\<exists>n. map_of (multiScale_groupedData labels (normalizedDatasets datasets) ! i)
               (ds_label (datasets ! k)) = Some (SBar n (elem_at (ds_data (datasets ! k)) i))"
proof -
  let ?nds = "normalizedDatasets datasets"
  let ?g = "\<lambda>d. (nd_label d, SBar (elem_at (nd_data d) i) (elem_at (nd_originalData d) i))"
  have len: "length ?nds = length datasets" by (simp add: normalizedDatasets_def)
  have lab: "map nd_label ?nds = map ds_label datasets" by (rule normalizedDatasets_fields)
  have org: "map nd_originalData ?nds = map ds_data datasets" by (rule normalizedDatasets_fields)
  from lab k len have labk: "nd_label (?nds ! k) = ds_label (datasets ! k)"
    by (metis nth_map)
  from org k len have orgk: "nd_originalData (?nds ! k) = ds_data (datasets ! k)"
    by (metis nth_map)
  from d lab have dn: "distinct (''label'' # map nd_label ?nds)" by simp
  have grp: "multiScale_groupedData labels ?nds ! i = (''label'', SLabel (labels ! i)) # map ?g ?nds"
    using i by (simp add: multiScale_groupedData_def multiScale_group_distinct [OF dn])
  have "ds_label (datasets ! k) \<in> set (map ds_label datasets)"
    using k by (simp add: nth_mem)
  with d have key: "ds_label (datasets ! k) \<noteq> ''label''" by auto
  have fst_g: "map fst (map ?g ?nds) = map nd_label ?nds" by (simp add: comp_def)
  have "distinct (map fst (map ?g ?nds))" using dn by (simp only: fst_g) simp
  moreover have "(nd_label (?nds ! k), snd (?g (?nds ! k))) \<in> set (map ?g ?nds)"
    using k len by (auto simp: in_set_conv_nth intro!: exI [of _ k])
  ultimately have "map_of (map ?g ?nds) (nd_label (?nds ! k)) = Some (snd (?g (?nds ! k)))"
    by (simp only: map_of_eq_Some_iff)
  then have "map_of (multiScale_groupedData labels ?nds ! i) (ds_label (datasets ! k)) =
      Some (SBar (elem_at (nd_data (?nds ! k)) i) (elem_at (ds_data (datasets ! k)) i))"
    using key by (simp add: grp labk orgk)
  then show ?thesis by blast
qed

text \<open>
  Claim C3. The \<^verbatim>\<open>originalData\<close> field of every normalized dataset is the caller's
  \<^verbatim>\<open>data\<close> array of the same series, unchanged, and the label is kept; the function
  builds new arrays and never writes to its input. Where the series labels are distinct
  (and none is \<^verbatim>\<open>'label'\<close>, the key of the category name), the value a bar hands
  to the tooltip for series \<open>k\<close> at category \<open>i\<close> is the caller's \<open>data[i]\<close> of that series.
\<close>

theorem originalData_retained:
  "map nd_originalData (normalizedDatasets datasets) = map ds_data datasets \<and>
   map nd_label (normalizedDatasets datasets) = map ds_label datasets \<and>
   (distinct (''label'' # map ds_label datasets) \<longrightarrow> k < length datasets \<longrightarrow> i < length labels \<longrightarrow>
      (\<exists>n. map_of (multiScale_groupedData labels (normalizedDatasets datasets) ! i)
              (ds_label (datasets ! k)) = Some (SBar n (elem_at (ds_data (datasets ! k)) i))))"
  using normalizedDatasets_fields [of datasets] tooltip_original [of datasets k i labels]
  by blast

text \<open>
  The example series keep their data, and the bar of series \<^verbatim>\<open>'B'\<close> at the first
  category carries the original value 20.
\<close>

theorem originalData_retained_witness:
  "map nd_originalData (normalizedDatasets example_datasets) = [[-10, 7], [20, 7]] \<and>
   (\<exists>n. map_of (multiScale_groupedData [''x'', ''y''] (normalizedDatasets example_datasets) ! 0) ''B''
           = Some (SBar n (Some 20)))"
proof -
  have d: "distinct (''label'' # map ds_label example_datasets)"
    by (simp add: example_datasets_def)
  have k: "1 < length example_datasets" by (simp add: example_datasets_def)
  have i: "0 < length [''x'', ''y'']" by simp
  from originalData_retained [of example_datasets 1 0 "[''x'', ''y'']"] d k i
  have a: "map nd_originalData (normalizedDatasets example_datasets) = map ds_data example_datasets"
    and b: "\<exists>n. map_of (multiScale_groupedData [''x'', ''y''] (normalizedDatasets example_datasets) ! 0)
              (ds_label (example_datasets ! 1)) = Some (SBar n (elem_at (ds_data (example_datasets ! 1)) 0))"
    by blast+
  from a have "map nd_originalData (normalizedDatasets example_datasets) = [[-10, 7], [20, 7]]"
    by (simp add: example_datasets_def)
  moreover from b have "\<exists>n. map_of (multiScale_groupedData [''x'', ''y''] (normalizedDatasets example_datasets) ! 0) ''B''
           = Some (SBar n (Some 20))"
    by (simp add: example_datasets_def elem_at_def)
  ultimately show ?thesis by simp
qed

section \<open>Pie slice labels\<close>

lemma pie_slices_nth:
  assumes "i < length labels"
  shows "pie_slices_of labels data ! i =
           \<lparr> sl_label = labels ! i, sl_value = elem_at data i,
             sl_fill = elem_at (getColors (length data) ''palette'') i,
             sl_text = slice_label_text (elem_at data i) \<rparr>"
  using assms by (simp add: pie_slices_of_def pieData_def Let_def)

lemma length_pie_slices: "length (pie_slices_of labels data) = length labels"
  by (simp add: pie_slices_of_def pieData_def Let_def)

text \<open>
  Against claim C4 as stated: with the data \<open>[10, 990]\<close> the first slice has a share of 1%
  of the total, below 5%, and its label is shown; with \<open>[5, 95]\<close> the first slice has a
  share of exactly 5%, not below the threshold, and its label is suppressed.
\<close>

theorem pie_label_share_counterexample:
  "sl_text (pie_slices_of [''A'', ''B''] [10, 990] ! 0) = PercentText 10 \<and>
   (10::real) / sum_list [10, 990] < 5 / 100 \<and>
   sl_text (pie_slices_of [''A'', ''B''] [5, 95] ! 0) = NoText \<and>
   \<not> (5::real) / sum_list [5, 95] < 5 / 100"
  by (simp add: pie_slices_nth elem_at_def slice_label_text_def)

text \<open>
  Claim C4, amended. The pie has one slice per label, and the numeric label of a slice is
  suppressed exactly when its raw value is 5 or less (or missing); a value greater than 5
  shows its formatted label. The total of the values plays no part.
\<close>

theorem pie_label_rule:
  assumes "i < length labels"
  shows "length (pie_slices_of labels data) = length labels \<and>
         sl_text (pie_slices_of labels data ! i) =
           (if i < length data \<and> 5 < data ! i then PercentText (data ! i) else NoText)"
  using assms
  by (simp add: pie_slices_nth length_pie_slices elem_at_def slice_label_text_def)

text \<open>Three labels over the data \<open>[45, 5]\<close>: one label shown, one suppressed, one missing.\<close>

theorem pie_label_rule_witness:
  "length (pie_slices_of [''A'', ''B'', ''C''] [45, 5]) = 3 \<and>
   sl_text (pie_slices_of [''A'', ''B'', ''C''] [45, 5] ! 0) = PercentText 45 \<and>
   sl_text (pie_slices_of [''A'', ''B'', ''C''] [45, 5] ! 1) = NoText \<and>
   sl_text (pie_slices_of [''A'', ''B'', ''C''] [45, 5] ! 2) = NoText"
  using pie_label_rule [of 0 "[''A'', ''B'', ''C'']" "[45, 5]"]
        pie_label_rule [of 1 "[''A'', ''B'', ''C'']" "[45, 5]"]
        pie_label_rule [of 2 "[''A'', ''B'', ''C'']" "[45, 5]"]
  by simp

section \<open>The input shapes of the table\<close>

lemma scalar_val_cases:
  "(\<exists>x. scalar_val v = Num x) \<or> (\<exists>s. scalar_val v = Str s)"
  by (cases v) simp_all

lemma tableData_parallel:
  assumes "rows \<noteq> []"
  shows "tableData (parallel_labels rows) (parallel_data rows) = Inr (row_model rows)"
proof -
  obtain l v rest where rows: "rows = (l, v) # rest"
    using assms by (cases rows) auto
  have first: "val_at (parallel_data rows) 0 = scalar_val v"
    by (simp add: rows val_at_def parallel_data_def)
  have par: "parallel_rows (parallel_labels rows) (parallel_data rows) = Inr (row_model rows)"
    unfolding parallel_rows_def parallel_labels_def parallel_data_def row_model_def
    by (auto intro!: nth_equalityI simp: val_at_def case_prod_beta)
  from scalar_val_cases [of v] show ?thesis
    by (auto simp: tableData_def first par)
qed

lemma tableData_pairs:
  assumes "rows \<noteq> []"
  shows "tableData L (pair_rows rows) = Inr (row_model rows)"
proof -
  obtain l v rest where rows: "rows = (l, v) # rest"
    using assms by (cases rows) auto
  have "val_at (pair_rows rows) 0 = Arr [Str l, scalar_val v]"
    by (simp add: rows val_at_def pair_rows_def)
  then show ?thesis
    by (simp add: tableData_def) (simp add: pair_rows_def row_model_def)
qed

lemma item_row_record:
  "l \<noteq> [] \<Longrightarrow>
   item_row (Obj [(''label'', Str l), (''value'', x)]) = Inr (Arr [Str l, x])"
  by (simp add: item_row_def js_or_def nullish_def)

lemma object_rows_records:
  assumes "\<forall>(l, v)\<in>set rows. l \<noteq> []"
  shows "object_rows (keyed_records rows) = Inr (row_model rows)"
  using assms
  by (induction rows) (auto simp: keyed_records_def row_model_def item_row_record)

lemma tableData_records:
  assumes "rows \<noteq> []" and "\<forall>(l, v)\<in>set rows. l \<noteq> []"
  shows "tableData L (keyed_records rows) = Inr (row_model rows)"
proof -
  obtain l v rest where rows: "rows = (l, v) # rest"
    using assms(1) by (cases rows) auto
  have "val_at (keyed_records rows) 0 = Obj [(''label'', Str l), (''value'', scalar_val v)]"
    by (simp add: rows val_at_def keyed_records_def)
  then show ?thesis
    using object_rows_records [OF assms(2)] by (simp add: tableData_def)
qed

lemma createDataTable_cong:
  "tableData labels data = tableData labels' data' \<Longrightarrow>
   createDataTable containerId labels data cfg p =
     createDataTable containerId labels' data' cfg p"
  by (cases "d3 p"; cases "select_id containerId p") (simp_all add: createDataTable_def)

text \<open>
  Against claim C5 as stated. A record whose label is the empty string gets the row
  \<^verbatim>\<open>[undefined, 1]\<close>, since the empty label is falsy and the chain
  \<^verbatim>\<open>item.label || item.name || item.key\<close> runs to its end; the parallel arrays give
  \<^verbatim>\<open>['', 1]\<close>. And for the table of no rows, the pair and the record shape, passed
  without a labels array, throw at \<^verbatim>\<open>labels.map\<close>, while the parallel arrays give the
  empty row model.
\<close>

theorem table_shape_counterexample:
  "tableData Undefined (keyed_records [([], SNum 1)]) = Inr [Arr [Undefined, Num 1]] \<and>
   tableData (parallel_labels [([], SNum 1)]) (parallel_data [([], SNum 1)]) =
     Inr [Arr [Str [], Num 1]] \<and>
   tableData Undefined (pair_rows []) = Inl TypeError \<and>
   tableData Undefined (keyed_records []) = Inl TypeError \<and>
   tableData (parallel_labels []) (parallel_data []) = Inr []"
  by (simp add: tableData_def keyed_records_def pair_rows_def parallel_labels_def
      parallel_data_def val_at_def item_row_def js_or_def nullish_def parallel_rows_def)

text \<open>
  Claim C5, amended. For every logical table with at least one row and no empty label,
  the three input shapes are normalized to the same row model, one \<^verbatim>\<open>[label, value]\<close>
  per row, and the renderer's whole outcome (the rendered rows included) is the same for
  the three; the labels argument \<open>L\<close> passed along with the pair or record shape is
  immaterial.
\<close>

theorem table_shape_equivalence:
  assumes "rows \<noteq> []" and "\<forall>(l, v)\<in>set rows. l \<noteq> []"
  shows "tableData (parallel_labels rows) (parallel_data rows) = Inr (row_model rows) \<and>
         tableData L (pair_rows rows) = Inr (row_model rows) \<and>
         tableData L' (keyed_records rows) = Inr (row_model rows) \<and>
         createDataTable containerId L (pair_rows rows) cfg p =
           createDataTable containerId (parallel_labels rows) (parallel_data rows) cfg p \<and>
         createDataTable containerId L' (keyed_records rows) cfg p =
           createDataTable containerId (parallel_labels rows) (parallel_data rows) cfg p"
proof -
  have a: "tableData (parallel_labels rows) (parallel_data rows) = Inr (row_model rows)"
    using assms(1) by (rule tableData_parallel)
  have b: "tableData L (pair_rows rows) = Inr (row_model rows)"
    using assms(1) by (rule tableData_pairs)
  have c: "tableData L' (keyed_records rows) = Inr (row_model rows)"
    using assms by (rule tableData_records)
  from a b c show ?thesis
    by (simp add: createDataTable_cong)
qed

text \<open>A table of a number and a string, in its three shapes.\<close>

theorem table_shape_equivalence_witness:
  "tableData (parallel_labels example_table) (parallel_data example_table) =
     Inr [Arr [Str ''Owner-occupied (%)'', Num 75.6], Arr [Str ''Region'', Str ''West'']] \<and>
   tableData Undefined (pair_rows example_table) =
     Inr [Arr [Str ''Owner-occupied (%)'', Num 75.6], Arr [Str ''Region'', Str ''West'']] \<and>
   tableData Undefined (keyed_records example_table) =
     Inr [Arr [Str ''Owner-occupied (%)'', Num 75.6], Arr [Str ''Region'', Str ''West'']]"
proof -
  have ne: "example_table \<noteq> []" by (simp add: example_table_def)
  have lab: "\<forall>(l, v)\<in>set example_table. l \<noteq> []" by (simp add: example_table_def)
  have m: "row_model example_table =
      [Arr [Str ''Owner-occupied (%)'', Num 75.6], Arr [Str ''Region'', Str ''West'']]"
    by (simp add: row_model_def example_table_def)
  from table_shape_equivalence [OF ne lab, of Undefined Undefined] show ?thesis
    by (simp add: m)
qed

section \<open>The guard on the charting library\<close>

lemma chart_renderers_guard:
  assumes "d3 p = D3_falsy"
  shows "createMultiSeriesBarChart containerId labels datasets yAxisTitle p =
           (Inr Null_result, p\<lparr>console := console p @ [console_error ''D3.js not loaded'']\<rparr>)"
    and "createPieChart containerId labels data showLegend p =
           (Inr Null_result, p\<lparr>console := console p @ [console_error ''D3.js not loaded'']\<rparr>)"
    and "createMultiScaleBarChart containerId labels datasets yAxisTitle p =
           (Inr Null_result, p\<lparr>console := console p @ [console_error ''D3.js not loaded'']\<rparr>)"
  using assms
  by (simp_all add: createMultiSeriesBarChart_def createPieChart_def createMultiScaleBarChart_def)

lemma renderers_undeclared:
  assumes "d3 p = D3_undeclared"
  shows "createMultiSeriesBarChart containerId labels datasets yAxisTitle p = (Inl ReferenceError, p)"
    and "createPieChart containerId labels data showLegend p = (Inl ReferenceError, p)"
    and "createMultiScaleBarChart containerId labels datasets yAxisTitle p = (Inl ReferenceError, p)"
    and "createDataTable containerId tlabels tdata cfg p = (Inl ReferenceError, p)"
  using assms
  by (simp_all add: createMultiSeriesBarChart_def createPieChart_def createMultiScaleBarChart_def
      createDataTable_def)

text \<open>
  Claim C7, at the input where the code departs from it. With \<^verbatim>\<open>d3\<close> declared but
  falsy, \<^verbatim>\<open>createDataTable\<close> logs nothing and returns nothing: it throws a
  \<^verbatim>\<open>TypeError\<close>, whatever its arguments. On the same page \<^verbatim>\<open>createPieChart\<close> does what
  the claim says: it logs the error, returns \<^verbatim>\<open>null\<close> and leaves every drawing surface
  as it was.
\<close>

theorem createDataTable_without_d3:
  "createDataTable containerId labels data cfg (p\<lparr>d3 := D3_falsy\<rparr>) =
     (Inl TypeError, p\<lparr>d3 := D3_falsy\<rparr>) \<and>
   createPieChart containerId chart_labels chart_data showLegend (p\<lparr>d3 := D3_falsy\<rparr>) =
     (Inr Null_result,
      p\<lparr>d3 := D3_falsy, console := console p @ [console_error ''D3.js not loaded'']\<rparr>)"
  by (simp add: createDataTable_def createPieChart_def)

section \<open>Labels and series of different lengths\<close>

text \<open>Selecting by a plain id never throws, and the id of a context menu is plain.\<close>

lemma css_ident_chars: "css_ident s \<Longrightarrow> list_all ident_char s"
  by (cases s rule: css_ident.cases) (auto simp add: ident_char_def)

lemma css_ident_context_menu:
  assumes "css_ident s"
  shows "css_ident (''context-menu-'' @ s)" and "css_ident (''context-menu-table-'' @ s)"
  using css_ident_chars [OF assms] by (simp_all add: ident_start_def ident_char_def)

lemma replace_context_menu_ident:
  assumes "css_ident m"
  shows "\<exists>p1. replace_context_menu m p = Inr p1 \<and> console p1 = console p \<and>
              (\<forall>e. e \<noteq> ById m \<longrightarrow> e \<noteq> Menu m \<longrightarrow> containers p1 e = containers p e)"
  using assms
  by (simp add: replace_context_menu_def select_id_def remove_selected_def Let_def
      split: option.splits)

lemma select_id_ident:
  assumes "css_ident i" and "select_id i p = Found e"
  shows "e = ById i \<or> e = Menu i"
  using assms by (auto simp add: select_id_def split: option.splits if_splits)

lemma select_id_valid: "css_ident i \<Longrightarrow> select_id i p \<noteq> Invalid_selector"
  by (simp add: select_id_def split: option.splits)

lemma draw_ident:
  assumes "css_ident i"
  shows "draw i v p = Inr (place (select_id i p) v p)"
  using select_id_valid [OF assms, of p] by (cases "select_id i p") (simp_all add: draw_def)

lemma place_console: "console (place s v p) = console p"
  by (cases s) (simp_all add: place_def)

lemma place_found: "containers (place (Found e) v p) e = Some [v]"
  by (simp add: place_def)

text \<open>
  What a chart renderer does to the page once its visual is computed, when the container
  id is a plain identifier: it returns the handles, logs nothing, and leaves the visual
  as the only content of the selected container.
\<close>

lemma draw_chart_ident:
  assumes "css_ident containerId"
  shows "fst (draw_chart containerId v p) = Inr Handles \<and>
         console (snd (draw_chart containerId v p)) = console p \<and>
         (\<forall>e. select_id containerId p = Found e \<longrightarrow>
              containers (snd (draw_chart containerId v p)) e = Some [v])"
proof -
  let ?m = "''context-menu-'' @ containerId"
  let ?p1 = "createTooltip (place (select_id containerId p) v p)"
  have m: "css_ident ?m" using assms by (rule css_ident_context_menu)
  obtain p2 where p2: "replace_context_menu ?m ?p1 = Inr p2"
    and c2: "console p2 = console ?p1"
    and k2: "\<forall>e. e \<noteq> ById ?m \<longrightarrow> e \<noteq> Menu ?m \<longrightarrow> containers p2 e = containers ?p1 e"
    using replace_context_menu_ident [OF m, of ?p1] by blast
  have r: "draw_chart containerId v p = (Inr Handles, p2)"
    using p2 by (simp add: draw_chart_def draw_ident [OF assms] addRightClickCopy_def)
  have c1: "console ?p1 = console p" by (simp add: createTooltip_def place_console)
  have "containers p2 e = Some [v]" if s: "select_id containerId p = Found e" for e
  proof -
    from select_id_ident [OF assms s] have "e \<noteq> ById ?m" "e \<noteq> Menu ?m" by auto
    with k2 have "containers p2 e = containers ?p1 e" by blast
    also have "\<dots> = Some [v]" by (simp add: createTooltip_def s place_found)
    finally show ?thesis .
  qed
  with r c1 c2 show ?thesis by simp
qed

text \<open>Lists built over the indices of the labels.\<close>

lemma map_snd_zip_upt: "map (\<lambda>x. f (snd x)) (zip xs [0..<length xs]) = map f [0..<length xs]"
  by (rule nth_equalityI) simp_all

lemma length_concat_const:
  assumes "\<And>x. x \<in> set xs \<Longrightarrow> length (f x) = k"
  shows "length (concat (map f xs)) = length xs * k"
  using assms by (induction xs) simp_all

lemma concat_map_zip_upt:
  "concat (map (\<lambda>x. f (snd x)) (zip xs [0..<length xs])) = concat (map f [0..<length xs])"
  by (simp add: map_snd_zip_upt)

text \<open>The groups of the multi-series chart, and what its bars read from them.\<close>

lemma multiSeries_group_distinct:
  assumes "distinct (''label'' # ''__proto__'' # map ds_label datasets)"
  shows "multiSeries_group datasets label i =
           (''label'', GLabel label) #
           map (\<lambda>d. (ds_label d, GValue (elem_at (ds_data d) i))) datasets"
proof -
  let ?kvs = "map (\<lambda>d. (ds_label d, GValue (elem_at (ds_data d) i))) datasets"
  have np: "ds_label d \<noteq> ''__proto__''" if "d \<in> set datasets" for d
  proof -
    have "ds_label d \<in> set (map ds_label datasets)" using that by simp
    with assms show ?thesis by auto
  qed
  have "multiSeries_group datasets label i =
          fold (\<lambda>dataset group. js_set (ds_label dataset) (GValue (elem_at (ds_data dataset) i)) group)
            datasets [(''label'', GLabel label)]"
    unfolding multiSeries_group_def
    by (intro fold_cong) (simp_all add: assign_primitive_def fun_eq_iff np)
  also have "\<dots> = fold (\<lambda>kv group. js_set (fst kv) (snd kv) group) ?kvs [(''label'', GLabel label)]"
    by (simp add: fold_map comp_def)
  also have "\<dots> = [(''label'', GLabel label)] @ ?kvs"
    using assms by (intro fold_js_set_fresh) (simp add: comp_def)
  finally show ?thesis by simp
qed

lemma map_of_keyed:
  assumes "distinct (map key xs)" and "x \<in> set xs"
  shows "map_of (map (\<lambda>d. (key d, val d)) xs) (key x) = Some (val x)"
proof -
  have "distinct (map fst (map (\<lambda>d. (key d, val d)) xs))" using assms(1) by (simp add: comp_def)
  moreover have "(key x, val x) \<in> set (map (\<lambda>d. (key d, val d)) xs)" using assms(2) by auto
  ultimately show ?thesis by (simp only: map_of_eq_Some_iff)
qed

lemma multiSeries_bar_values:
  assumes "distinct (''label'' # ''__proto__'' # map ds_label datasets)"
  shows "map (\<lambda>b. entry_value (bar_value b))
           (multiSeries_bars (map ds_label datasets) (multiSeries_group datasets label i)) =
         map (\<lambda>dataset. elem_at (ds_data dataset) i) datasets"
proof -
  have "entry_value (read_group (multiSeries_group datasets label i) (ds_label d)) =
          elem_at (ds_data d) i" if d: "d \<in> set datasets" for d
  proof -
    have "ds_label d \<in> set (map ds_label datasets)" using d by simp
    with assms have n: "ds_label d \<noteq> ''__proto__''" "ds_label d \<noteq> ''label''" by auto
    from assms have "distinct (map ds_label datasets)" by simp
    from map_of_keyed [OF this d, of "\<lambda>d. GValue (elem_at (ds_data d) i)"] n
    show ?thesis
      by (simp add: read_group_def read_own_def multiSeries_group_distinct [OF assms])
  qed
  then show ?thesis by (simp add: multiSeries_bars_def comp_def)
qed

lemma multiSeries_positions:
  "positions (MultiSeriesBars
      \<lparr> ms_groupedData = multiSeries_groupedData labels datasets,
        ms_bars = map (multiSeries_bars (map ds_label datasets))
                    (multiSeries_groupedData labels datasets),
        ms_seriesNames = names, ms_colors = colors, ms_yAxisTitle = t \<rparr>) =
   concat (map (\<lambda>x. map (\<lambda>b. entry_value (bar_value b))
                        (multiSeries_bars (map ds_label datasets)
                           (multiSeries_group datasets (fst x) (snd x))))
             (zip labels [0..<length labels]))"
  by (simp add: multiSeries_groupedData_def comp_def case_prod_beta)

lemma multiSeries_drawn:
  fixes labels datasets names colors t
  defines "v \<equiv> MultiSeriesBars
      \<lparr> ms_groupedData = multiSeries_groupedData labels datasets,
        ms_bars = map (multiSeries_bars (map ds_label datasets))
                    (multiSeries_groupedData labels datasets),
        ms_seriesNames = names, ms_colors = colors, ms_yAxisTitle = t \<rparr>"
  shows "length (positions v) = length (expected_positions (MultiSeries labels datasets y))"
    and "well_keyed (MultiSeries labels datasets y) \<Longrightarrow>
         positions v = expected_positions (MultiSeries labels datasets y)"
proof -
  show "length (positions v) = length (expected_positions (MultiSeries labels datasets y))"
    unfolding v_def multiSeries_positions
    by (simp add: length_concat_const [where k = "length datasets"] multiSeries_bars_def)
  assume "well_keyed (MultiSeries labels datasets y)"
  then have d: "distinct (''label'' # ''__proto__'' # map ds_label datasets)" by simp
  show "positions v = expected_positions (MultiSeries labels datasets y)"
    unfolding v_def multiSeries_positions
    by (simp only: multiSeries_bar_values [OF d] expected_positions.simps
        concat_map_zip_upt [where f = "\<lambda>i. map (\<lambda>dataset. elem_at (ds_data dataset) i) datasets"])
qed

text \<open>The single-series bar charts: one bar per data value.\<close>

lemma percentage_positions:
  "map (\<lambda>b. Some (sb_value b)) (percentage_bars labels data colors) = map Some data"
  by (simp add: percentage_bars_def comp_def case_prod_beta map_fst_zip_upt [where f = Some])

lemma multiColor_positions:
  "map (\<lambda>b. Some (sb_value b)) (multiColor_bars labels data) = map Some data"
  by (simp add: multiColor_bars_def Let_def comp_def case_prod_beta
      map_fst_zip_upt [where f = Some])

text \<open>The comparison chart: two bars per label.\<close>

lemma comparison_bar_values:
  assumes "distinct [''label'', label1, label2]"
  shows "map (\<lambda>b. entry_value (bar_value b))
           (comparison_bars [label1, label2]
              (comparison_group label1 label2 dataset1 dataset2 label i)) =
         [elem_at dataset1 i, elem_at dataset2 i]"
proof -
  from assms have n: "label1 \<noteq> ''label''" "label2 \<noteq> ''label''" "label1 \<noteq> label2"
    by auto
  have g: "comparison_group label1 label2 dataset1 dataset2 label i =
             [(''label'', GLabel label), (label1, GValue (elem_at dataset1 i)),
              (label2, GValue (elem_at dataset2 i))]"
    using n by (auto simp add: comparison_group_def)
  show ?thesis
    unfolding g using n by (auto simp add: comparison_bars_def read_own_def)
qed

lemma comparison_positions:
  "positions (ComparisonBars
      \<lparr> cmp_groupedData = gd,
        cmp_bars = map (comparison_bars [label1, label2])
                     (map (\<lambda>(label, i). comparison_group label1 label2 dataset1 dataset2 label i)
                        (zip labels [0..<length labels])),
        cmp_seriesNames = names, cmp_colors = colors, cmp_yAxisTitle = t,
        cmp_showAsPercentage = sp \<rparr>) =
   concat (map (\<lambda>x. map (\<lambda>b. entry_value (bar_value b))
                        (comparison_bars [label1, label2]
                           (comparison_group label1 label2 dataset1 dataset2 (fst x) (snd x))))
             (zip labels [0..<length labels]))"
  by (simp add: comp_def case_prod_beta)

text \<open>The pie and the doughnut: one slice per label.\<close>

lemma pieData_values: "map snd (pieData labels data) = map (elem_at data) [0..<length labels]"
  by (simp add: pieData_def comp_def case_prod_beta map_snd_zip_upt [where f = "elem_at data"])

lemma pie_positions:
  "map sl_value (pie_slices_of labels data) = map (elem_at data) [0..<length labels]"
proof -
  have "map sl_value (pie_slices_of labels data) = map snd (pieData labels data)"
    by (simp add: pie_slices_of_def Let_def comp_def case_prod_beta
        map_fst_zip_upt [where f = snd])
  then show ?thesis by (simp only: pieData_values)
qed

lemma doughnut_positions:
  "map rs_value (doughnut_slices_of labels data) = map (elem_at data) [0..<length labels]"
proof -
  have "map rs_value (doughnut_slices_of labels data) = map snd (pieData labels data)"
    by (simp add: doughnut_slices_of_def Let_def comp_def case_prod_beta
        map_fst_zip_upt [where f = snd])
  then show ?thesis by (simp only: pieData_values)
qed

text \<open>The multi-scale chart: the original value behind each normalized bar.\<close>

lemma multiScale_bar_values:
  assumes "distinct (''label'' # map ds_label datasets)"
  shows "map (\<lambda>key. original_value
                      (map_of (multiScale_group (normalizedDatasets datasets) label i) key))
           (map nd_label (normalizedDatasets datasets)) =
         map (\<lambda>dataset. elem_at (ds_data dataset) i) datasets"
proof -
  let ?nds = "normalizedDatasets datasets"
  have lab: "map nd_label ?nds = map ds_label datasets" by (rule normalizedDatasets_fields)
  have org: "map nd_originalData ?nds = map ds_data datasets" by (rule normalizedDatasets_fields)
  from assms lab have d: "distinct (''label'' # map nd_label ?nds)" by simp
  have "original_value (map_of (multiScale_group ?nds label i) (nd_label nd)) =
          elem_at (nd_originalData nd) i" if nd: "nd \<in> set ?nds" for nd
  proof -
    have "nd_label nd \<in> set (map nd_label ?nds)" using nd by simp
    with d have n: "nd_label nd \<noteq> ''label''" by auto
    from d have "distinct (map nd_label ?nds)" by simp
    from map_of_keyed [OF this nd,
        of "\<lambda>d. SBar (elem_at (nd_data d) i) (elem_at (nd_originalData d) i)"] n
    show ?thesis by (simp add: multiScale_group_distinct [OF d])
  qed
  then have "map (\<lambda>key. original_value (map_of (multiScale_group ?nds label i) key))
               (map nd_label ?nds) =
             map (\<lambda>od. elem_at od i) (map nd_originalData ?nds)"
    by (simp add: comp_def)
  also have "\<dots> = map (\<lambda>dataset. elem_at (ds_data dataset) i) datasets"
    by (simp only: org) (simp add: comp_def)
  finally show ?thesis .
qed

lemma multiScale_positions:
  "positions (MultiScaleBars
      \<lparr> sc_groupedData = multiScale_groupedData labels nds, sc_seriesNames = map nd_label nds,
        sc_colors = colors, sc_yAxisTitle = t \<rparr>) =
   concat (map (\<lambda>x. map (\<lambda>key. original_value (map_of (multiScale_group nds (fst x) (snd x)) key))
                        (map nd_label nds))
             (zip labels [0..<length labels]))"
  by (simp add: multiScale_groupedData_def comp_def case_prod_beta)

text \<open>The table of parallel arrays: one row per label, none of which throws.\<close>

lemma tableData_numbers:
  "tableData (Arr (map Str labels)) (map Num data) =
     Inr (map (\<lambda>x. Arr [Str (fst x), val_at (map Num data) (snd x)])
            (zip labels [0..<length labels]))"
proof -
  have "val_at (map Num data) 0 = Undefined \<or> (\<exists>x. val_at (map Num data) 0 = Num x)"
    by (cases data) (simp_all add: val_at_def)
  then have "tableData (Arr (map Str labels)) (map Num data) =
               parallel_rows (Arr (map Str labels)) (map Num data)"
    by (auto simp add: tableData_def)
  also have "\<dots> = Inr (map (\<lambda>x. Arr [Str (fst x), val_at (map Num data) (snd x)])
                        (zip labels [0..<length labels]))"
    by (simp add: parallel_rows_def zip_map1 comp_def case_prod_beta)
  finally show ?thesis .
qed

lemma render_rows_array:
  "render_rows cfg k (Arr cells # rest) =
     (fst (render_row cfg k (Arr cells)) # fst (render_rows cfg (Suc k) rest),
      snd (render_rows cfg (Suc k) rest))"
  by (simp add: render_row_def Let_def split: prod.splits)

lemma render_rows_pairs:
  "snd (render_rows cfg k (map (\<lambda>x. Arr [a x, b x]) xs)) = None \<and>
   length (fst (render_rows cfg k (map (\<lambda>x. Arr [a x, b x]) xs))) = length xs"
  by (induction xs arbitrary: k) (simp_all add: render_rows_array del: render_rows.simps(2))

lemma row_value_pair:
  "row_value (fst (render_row cfg k (Arr [l, c]))) =
     shown_number (displayValue (cfg_formatValue cfg) c k (Suc 0))"
  by (simp add: render_row_def render_cell_def Let_def)

lemma shown_number_default:
  "shown_number (displayValue None cellData i j) =
     (case cellData of Num x \<Rightarrow> Some x | _ \<Rightarrow> None)"
  by (cases cellData) (simp_all add: displayValue_def)

lemma render_rows_values:
  assumes "cfg_formatValue cfg = None"
  shows "map row_value (fst (render_rows cfg k (map (\<lambda>x. Arr [a x, b x]) xs))) =
         map (\<lambda>x. case b x of Num v \<Rightarrow> Some v | _ \<Rightarrow> None) xs"
  using assms
  by (induction xs arbitrary: k)
     (simp_all add: render_rows_array row_value_pair shown_number_default
        del: render_rows.simps(2) row_value.simps)

lemma number_cell: "(case val_at (map Num data) i of Num v \<Rightarrow> Some v | _ \<Rightarrow> None) = elem_at data i"
  by (simp add: val_at_def elem_at_def)

lemma createDataTable_numbers:
  fixes cfg labels data containerId p
  assumes l: "d3 p = D3_loaded" and c: "css_ident containerId"
  defines "rows \<equiv> fst (render_rows cfg 0
                          (map (\<lambda>x. Arr [Str (fst x), val_at (map Num data) (snd x)])
                             (zip labels [0..<length labels])))"
  defines "r \<equiv> createDataTable containerId (Arr (map Str labels)) (map Num data) cfg p"
  shows "fst r = Inr Handles \<and> console (snd r) = console p \<and>
         (\<forall>e. select_id containerId p = Found e \<longrightarrow>
              containers (snd r) e = Some [table_frame cfg rows])"
proof -
  let ?m = "''context-menu-table-'' @ containerId"
  let ?rowsData = "map (\<lambda>x. Arr [Str (fst x), val_at (map Num data) (snd x)])
                     (zip labels [0..<length labels])"
  let ?p1 = "place (select_id containerId p) (table_frame cfg rows) p"
  have m: "css_ident ?m" using c by (rule css_ident_context_menu)
  obtain p2 where p2: "replace_context_menu ?m ?p1 = Inr p2"
    and c2: "console p2 = console ?p1"
    and k2: "\<forall>e. e \<noteq> ById ?m \<longrightarrow> e \<noteq> Menu ?m \<longrightarrow> containers p2 e = containers ?p1 e"
    using replace_context_menu_ident [OF m, of ?p1] by blast
  have rr: "render_rows cfg 0 ?rowsData = (rows, None)"
    using render_rows_pairs [of cfg 0 "\<lambda>x. Str (fst x)" "\<lambda>x. val_at (map Num data) (snd x)"
        "zip labels [0..<length labels]"]
    by (simp add: rows_def prod_eq_iff)
  have "r = (Inr Handles, p2)"
  proof (cases "select_id containerId p")
    case Invalid_selector
    with select_id_valid [OF c, of p] show ?thesis by simp
  next
    case No_element
    with p2 show ?thesis
      by (simp add: r_def createDataTable_def l tableData_numbers rr addRightClickCopyTable_def)
  next
    case (Found e)
    with p2 show ?thesis
      by (simp add: r_def createDataTable_def l tableData_numbers rr addRightClickCopyTable_def)
  qed
  moreover have "console ?p1 = console p" by (simp add: place_console)
  moreover have "containers p2 e = Some [table_frame cfg rows]"
    if s: "select_id containerId p = Found e" for e
  proof -
    from select_id_ident [OF c s] have "e \<noteq> ById ?m" "e \<noteq> Menu ?m" by auto
    with k2 have "containers p2 e = containers ?p1 e" by blast
    also have "\<dots> = Some [table_frame cfg rows]" by (simp add: s place_found)
    finally show ?thesis .
  qed
  ultimately show ?thesis using c2 by simp
qed

lemma table_positions:
  fixes cfg labels data
  defines "rows \<equiv> fst (render_rows cfg 0
                          (map (\<lambda>x. Arr [Str (fst x), val_at (map Num data) (snd x)])
                             (zip labels [0..<length labels])))"
  assumes f: "cfg_formatValue cfg = None"
  shows "positions (table_frame cfg rows) = expected_positions (Table labels data headers title)"
proof -
  have "positions (table_frame cfg rows) = map row_value rows" by (simp add: table_frame_def)
  also have "\<dots> = map (\<lambda>x. elem_at data (snd x)) (zip labels [0..<length labels])"
    unfolding rows_def
    by (simp only: render_rows_values [OF f, of 0 "\<lambda>x. Str (fst x)"
          "\<lambda>x. val_at (map Num data) (snd x)"] number_cell)
  also have "\<dots> = expected_positions (Table labels data headers title)"
    by (simp add: map_snd_zip_upt [where f = "elem_at data"])
  finally show ?thesis .
qed

text \<open>
  Each chart renderer, with the library loaded, hands one visual to the drawing, and the
  visual has the positions the input asks for.
\<close>

lemma drawn_exI:
  assumes "r = draw_chart c v p" and "positions v = e"
  shows "\<exists>v. r = draw_chart c v p \<and> length (positions v) = length e \<and>
             (w \<longrightarrow> positions v = e)"
  using assms by auto

lemma render_chart:
  assumes l: "d3 p = D3_loaded"
  shows "(\<exists>labels data headers title. input = Table labels data headers title) \<or>
         (\<exists>v. render containerId input p = draw_chart containerId v p \<and>
              length (positions v) = length (expected_positions input) \<and>
              (well_keyed input \<longrightarrow> positions v = expected_positions input))"
proof (cases input)
  case (MultiSeries labels datasets y)
  let ?v = "MultiSeriesBars
      \<lparr> ms_groupedData = multiSeries_groupedData labels datasets,
        ms_bars = map (multiSeries_bars (map ds_label datasets))
                    (multiSeries_groupedData labels datasets),
        ms_seriesNames = map ds_label datasets, ms_colors = coloredDatasets_colors datasets,
        ms_yAxisTitle = truthy_title y \<rparr>"
  have "render containerId input p = draw_chart containerId ?v p"
    by (simp add: MultiSeries createMultiSeriesBarChart_def l Let_def)
  with multiSeries_drawn [where labels = labels and datasets = datasets
      and names = "map ds_label datasets" and colors = "coloredDatasets_colors datasets"
      and t = "truthy_title y" and y = y]
  show ?thesis unfolding MultiSeries by blast
next
  case (Percentage labels data config)
  show ?thesis
    unfolding Percentage
    by (rule disjI2, rule drawn_exI)
       (simp add: createPercentageBarChart_def l Let_def split del: if_split,
        simp add: percentage_positions)
next
  case (MultiColor labels data y)
  show ?thesis
    unfolding MultiColor
    by (rule disjI2, rule drawn_exI)
       (simp add: createMultiColorBarChart_def l Let_def split del: if_split,
        simp add: multiColor_positions)
next
  case (Comparison labels dataset1 dataset2 config)
  let ?l1 = "or_default (cmpc_label1 config) ''Series 1''"
  let ?l2 = "or_default (cmpc_label2 config) ''Series 2''"
  let ?gd = "map (\<lambda>(label, i). comparison_group ?l1 ?l2 dataset1 dataset2 label i)
               (zip labels [0..<length labels])"
  let ?v = "ComparisonBars
      \<lparr> cmp_groupedData = ?gd, cmp_bars = map (comparison_bars [?l1, ?l2]) ?gd,
        cmp_seriesNames = [?l1, ?l2],
        cmp_colors = [or_default (cmpc_color1 config) ''rgba(54,162,235,0.75)'',
                      or_default (cmpc_color2 config) ''rgba(255,99,132,0.75)''],
        cmp_yAxisTitle = truthy_title (Some (or_default (cmpc_yAxisTitle config) ''Value'')),
        cmp_showAsPercentage = or_default (cmpc_showAsPercentage config) False \<rparr>"
  have r: "render containerId input p = draw_chart containerId ?v p"
    by (simp add: Comparison createComparisonBarChart_def l Let_def)
  have len: "length (positions ?v) = length (expected_positions input)"
    unfolding Comparison comparison_positions expected_positions.simps
    by (simp add: length_concat_const [where k = 2] comparison_bars_def)
  have "positions ?v = expected_positions input" if "well_keyed input"
  proof -
    from that have d: "distinct [''label'', ?l1, ?l2]" by (simp add: Comparison)
    show ?thesis
      unfolding Comparison comparison_positions expected_positions.simps
      by (simp only: comparison_bar_values [OF d]
          concat_map_zip_upt [where f = "\<lambda>i. [elem_at dataset1 i, elem_at dataset2 i]"])
  qed
  with r len show ?thesis by blast
next
  case (Pie labels data showLegend)
  show ?thesis
    unfolding Pie
    by (rule disjI2, rule drawn_exI)
       (simp add: createPieChart_def l Let_def split del: if_split,
        simp add: pie_positions)
next
  case (Doughnut labels data config)
  show ?thesis
    unfolding Doughnut
    by (rule disjI2, rule drawn_exI)
       (simp add: createDoughnutChart_def l Let_def split del: if_split,
        simp add: doughnut_positions)
next
  case (MultiScale labels datasets y)
  let ?nds = "normalizedDatasets datasets"
  let ?v = "MultiScaleBars
      \<lparr> sc_groupedData = multiScale_groupedData labels ?nds, sc_seriesNames = map nd_label ?nds,
        sc_colors = map nd_backgroundColor ?nds,
        sc_yAxisTitle = truthy_title (Some (case y of None \<Rightarrow> ''Assorted Variables''
                                                 | Some t \<Rightarrow> t)) \<rparr>"
  have r: "render containerId input p = draw_chart containerId ?v p"
    by (simp add: MultiScale createMultiScaleBarChart_def l Let_def)
  have n: "length ?nds = length datasets" by (simp add: normalizedDatasets_def)
  have len: "length (positions ?v) = length (expected_positions input)"
    unfolding MultiScale multiScale_positions expected_positions.simps
    by (simp add: length_concat_const [where k = "length datasets"] n)
  have "positions ?v = expected_positions input" if "well_keyed input"
  proof -
    from that have d: "distinct (''label'' # map ds_label datasets)" by (simp add: MultiScale)
    show ?thesis
      unfolding MultiScale multiScale_positions expected_positions.simps
      by (simp only: multiScale_bar_values [OF d]
          concat_map_zip_upt
            [where f = "\<lambda>i. map (\<lambda>dataset. elem_at (ds_data dataset) i) datasets"])
  qed
  with r len show ?thesis by blast
next
  case (Table labels data headers title)
  then show ?thesis by blast
qed

text \<open>
  The one place of the file that compares the two lengths: \<^verbatim>\<open>validateChartData\<close> warns
  and returns \<^verbatim>\<open>true\<close>. No renderer and no chart method calls it.
\<close>

lemma validateChartData_warns:
  assumes "length ls \<noteq> length ds"
  shows "validateChartData (Arr ls) (Arr ds) out =
           (Inr True, out @ [console_warn ''Labels and data arrays have different lengths''])"
  using assms by (simp add: validateChartData_def)

text \<open>
  Against claim C8 as stated: two labels against a series of one value, with D3 loaded.
  The renderer returns its handles, and the console is as empty as before: no warning is
  logged.
\<close>

theorem mismatch_warning_counterexample:
  "length [''a'', ''b''] \<noteq> length (ds_data (short_series ! 0)) \<and>
   fst (render ''chart-1'' (MultiSeries [''a'', ''b''] short_series None) loaded_page)
     = Inr Handles \<and>
   console (snd (render ''chart-1'' (MultiSeries [''a'', ''b''] short_series None) loaded_page))
     = []"
  by (simp add: createMultiSeriesBarChart_def short_series_def loaded_page_def Let_def
      draw_chart_def draw_def select_id_def place_def createTooltip_def addRightClickCopy_def
      replace_context_menu_def remove_selected_def ident_start_def ident_char_def)

text \<open>
  Claim C8, corrected. Whatever the lengths of the labels and of the series, each of the
  eight renderers (the table without a formatter of the caller's), with the library
  loaded and a container id that is a plain identifier, returns its handles, so that no
  exception is raised; it leaves the console
  as it was, so that no warning is logged; and it leaves one drawing in the container
  the id selects, with as many positions as the input asks for. When the series can be
  told apart, the positions hold the values of the series, and nothing where a series is
  shorter than the labels.
\<close>

theorem mismatch_tolerated:
  assumes "d3 p = D3_loaded" and "css_ident containerId"
  shows "fst (render containerId input p) = Inr Handles \<and>
         console (snd (render containerId input p)) = console p \<and>
         (\<forall>e. select_id containerId p = Found e \<longrightarrow>
              (\<exists>v. containers (snd (render containerId input p)) e = Some [v] \<and>
                   length (positions v) = length (expected_positions input) \<and>
                   (well_keyed input \<longrightarrow> positions v = expected_positions input)))"
proof -
  consider (table) labels data headers title where "input = Table labels data headers title"
    | (chart) v where "render containerId input p = draw_chart containerId v p"
        and "length (positions v) = length (expected_positions input)"
        and "well_keyed input \<longrightarrow> positions v = expected_positions input"
    using render_chart [OF assms(1), of input containerId] by blast
  then show ?thesis
  proof cases
    case table
    let ?cfg = "\<lparr> cfg_headers = headers, cfg_title = title, cfg_formatValue = None,
                  cfg_sortable = False, cfg_showIndex = False, cfg_className = ''data-table'' \<rparr>"
    let ?rows = "fst (render_rows ?cfg 0
                        (map (\<lambda>x. Arr [Str (fst x), val_at (map Num data) (snd x)])
                           (zip labels [0..<length labels])))"
    have "positions (table_frame ?cfg ?rows) = expected_positions input"
      unfolding table by (rule table_positions) simp
    with createDataTable_numbers [OF assms, of labels data ?cfg]
    show ?thesis unfolding table render.simps by auto
  next
    case chart
    with draw_chart_ident [OF assms(2), of v p] show ?thesis by auto
  qed
qed

text \<open>
  The theorem at two labels against a series of one value: the container holds one
  drawing of two positions, the second of them without a value.
\<close>

theorem mismatch_tolerated_witness:
  "fst (render ''chart-1'' (MultiSeries [''a'', ''b''] short_series None) loaded_page)
     = Inr Handles \<and>
   console (snd (render ''chart-1'' (MultiSeries [''a'', ''b''] short_series None) loaded_page))
     = [] \<and>
   (\<exists>v. containers (snd (render ''chart-1'' (MultiSeries [''a'', ''b''] short_series None)
                            loaded_page)) (ById ''chart-1'') = Some [v] \<and>
        positions v = [Some 1, None])"
proof -
  let ?input = "MultiSeries [''a'', ''b''] short_series None"
  have l: "d3 loaded_page = D3_loaded" by (simp add: loaded_page_def)
  have c: "css_ident ''chart-1''" by (simp add: ident_start_def ident_char_def)
  have s: "select_id ''chart-1'' loaded_page = Found (ById ''chart-1'')"
    by (simp add: select_id_def loaded_page_def ident_start_def ident_char_def)
  have w: "well_keyed ?input" by (simp add: short_series_def)
  have e: "expected_positions ?input = [Some 1, None]"
    by (simp add: short_series_def elem_at_def upt_rec)
  have n: "console loaded_page = []" by (simp add: loaded_page_def)
  from mismatch_tolerated [OF l c, of ?input] s w show ?thesis
    unfolding e n by blast
qed

text \<open>
  Why the container id has to be a plain identifier: for an id that makes no selector,
  as the id \<^verbatim>\<open>1\<close> or the empty id, every renderer throws at its select, before anything
  is drawn.
\<close>

lemma no_selector_not_ident: "no_selector s \<Longrightarrow> \<not> css_ident s"
proof -
  have "\<not> ident_start CHR ''-''" by (simp add: ident_start_def)
  then show "no_selector s \<Longrightarrow> \<not> css_ident s"
    by (cases s rule: css_ident.cases) (auto simp add: no_ident_start_def)
qed

lemma render_invalid_selector:
  assumes "d3 p = D3_loaded" and "no_selector containerId"
  shows "render containerId input p = (Inl DOMException, p)"
  using assms no_selector_not_ident [OF assms(2)]
  by (cases input)
     (simp_all add: createMultiSeriesBarChart_def createPercentageBarChart_def
        createMultiColorBarChart_def createComparisonBarChart_def createPieChart_def
        createDoughnutChart_def createMultiScaleBarChart_def createDataTable_def
        draw_chart_def draw_def select_id_def Let_def)

section \<open>Decimal numerals are injective\<close>

lemma decimal_digits_inj:
  assumes "a < 10" and "b < 10" and "decimal_digits ! a = decimal_digits ! b"
  shows "a = b"
proof -
  have "distinct decimal_digits" by (simp add: decimal_digits_def)
  moreover have "length decimal_digits = 10" by (simp add: decimal_digits_def)
  ultimately show ?thesis using assms by (simp add: nth_eq_iff_index_eq)
qed

lemma show_nat_nonempty: "show_nat n \<noteq> []"
  by (subst show_nat.simps) simp

lemma show_nat_digit: "n < 10 \<Longrightarrow> show_nat n = [decimal_digits ! n]"
  by (subst show_nat.simps) simp

lemma show_nat_more: "\<not> n < 10 \<Longrightarrow> show_nat n = show_nat (n div 10) @ [decimal_digits ! (n mod 10)]"
  by (subst show_nat.simps) simp

lemma show_nat_inj: "show_nat m = show_nat n \<Longrightarrow> m = n"
proof (induction m arbitrary: n rule: show_nat.induct)
  case (1 m)
  show ?case
  proof (cases "m < 10")
    case True
    show ?thesis
    proof (cases "n < 10")
      case n: True
      from "1.prems" True n have "decimal_digits ! m = decimal_digits ! n"
        by (simp add: show_nat_digit)
      with True n show ?thesis by (rule decimal_digits_inj)
    next
      case False
      from "1.prems" True False
      have "[decimal_digits ! m] = show_nat (n div 10) @ [decimal_digits ! (n mod 10)]"
        by (simp add: show_nat_digit show_nat_more)
      then have "show_nat (n div 10) = []" by simp
      then show ?thesis by (simp add: show_nat_nonempty)
    qed
  next
    case False
    show ?thesis
    proof (cases "n < 10")
      case True
      from "1.prems" True False
      have "show_nat (m div 10) @ [decimal_digits ! (m mod 10)] = [decimal_digits ! n]"
        by (simp add: show_nat_digit show_nat_more)
      then have "show_nat (m div 10) = []" by simp
      then show ?thesis by (simp add: show_nat_nonempty)
    next
      case n: False
      from "1.prems" False n
      have "show_nat (m div 10) @ [decimal_digits ! (m mod 10)] =
            show_nat (n div 10) @ [decimal_digits ! (n mod 10)]"
        by (simp add: show_nat_more)
      then have a: "show_nat (m div 10) = show_nat (n div 10)"
        and b: "decimal_digits ! (m mod 10) = decimal_digits ! (n mod 10)"
        by simp_all
      from a False have "m div 10 = n div 10" by (rule "1.IH" [rotated])
      moreover from b have "m mod 10 = n mod 10" by (intro decimal_digits_inj) simp_all
      ultimately show ?thesis by (metis div_mult_mod_eq)
    qed
  qed
qed

lemma show_nat_0: "show_nat 0 = ''0''"
  by (simp add: show_nat_digit decimal_digits_def)

lemma show_nat_1: "show_nat (Suc 0) = ''1''"
  by (simp add: show_nat_digit decimal_digits_def)

lemma show_nat_2: "show_nat (Suc (Suc 0)) = ''2''"
  by (simp add: show_nat_digit decimal_digits_def)

section \<open>The counters and the generated identifiers\<close>

lemma appendChild_keeps:
  "appendChild fallback sel child b = Inr b' \<Longrightarrow>
   chartCounter b' = chartCounter b \<and> sectionCounter b' = sectionCounter b \<and> body b' = body b"
  by (auto simp: appendChild_def split: option.splits if_splits)

lemma createChartContainer_counter:
  "chartCounter (snd (createChartContainer config b)) =
     (if cc_containerId config = None then chartCounter b + 1 else chartCounter b)"
  by (auto simp: createChartContainer_def Let_def split: option.splits sum.splits
      dest: appendChild_keeps)

lemma createChartContainer_section:
  "sectionCounter (snd (createChartContainer config b)) = sectionCounter b"
  by (auto simp: createChartContainer_def Let_def split: option.splits sum.splits
      dest: appendChild_keeps)

lemma createChartContainer_body:
  "body (snd (createChartContainer config b)) = body b"
  by (auto simp: createChartContainer_def Let_def split: option.splits sum.splits
      dest: appendChild_keeps)

lemma createChartContainer_generated:
  "cc_containerId config = None \<Longrightarrow> createChartContainer config b = (Inr (Ret_id i), b') \<Longrightarrow>
   i = ''chart-'' @ show_nat (chartCounter b + 1)"
  by (auto simp: createChartContainer_def Let_def split: sum.splits)

lemma step_chartCounter:
  "x \<noteq> Reset \<Longrightarrow> chartCounter b \<le> chartCounter (snd (step x b))"
proof (cases x)
  case (CreateChart d3_available config)
  then show ?thesis
    by (auto simp: createChart_def ensureInitialized_def Let_def createChartContainer_counter
        split: option.splits sum.splits if_splits)
qed (auto simp: createDocument_def Let_def createSection_def addContent_def
      createChartContainer_counter
      split: option.splits sum.splits dest: appendChild_keeps)

lemma step_sectionCounter:
  "x \<noteq> Reset \<Longrightarrow> sectionCounter b \<le> sectionCounter (snd (step x b))"
proof (cases x)
  case (CreateChart d3_available config)
  then show ?thesis
    by (auto simp: createChart_def ensureInitialized_def Let_def createChartContainer_section
        split: option.splits sum.splits if_splits)
qed (auto simp: createDocument_def Let_def createSection_def addContent_def
      createChartContainer_section
      split: option.splits sum.splits dest: appendChild_keeps)

lemma step_generated:
  assumes "generates_chart_id x" and "step x b = (Inr (Ret_id i), b')"
  shows "i = ''chart-'' @ show_nat (chartCounter b + 1) \<and> chartCounter b' = chartCounter b + 1"
proof (cases x)
  case (CreateChartContainer config)
  with assms have none: "cc_containerId config = None"
    and st: "createChartContainer config b = (Inr (Ret_id i), b')"
    by (simp_all add: generates_chart_id_def)
  from createChartContainer_counter [of config b] st none
  have "chartCounter b' = chartCounter b + 1" by simp
  with createChartContainer_generated [OF none st] show ?thesis by simp
next
  case (CreateChart d3_available config)
  let ?cc = "\<lparr> cc_containerId = None, cc_title = Some (or_default (ch_title config) []),
               cc_parentSelector =
                 Some (or_default (ch_parentSelector config) Sel_section_content) \<rparr>"
  from assms CreateChart obtain b1 where
    init: "ensureInitialized d3_available b = Inr b1"
    and st: "createChartContainer ?cc b1 = (Inr (Ret_id i), b')"
    by (auto simp: generates_chart_id_def createChart_def Let_def
        split: sum.splits option.splits if_splits)
  from init have c: "chartCounter b1 = chartCounter b"
    by (auto simp: ensureInitialized_def split: if_splits)
  from createChartContainer_counter [of ?cc b1] st
  have "chartCounter b' = chartCounter b1 + 1" by simp
  moreover from createChartContainer_generated [OF _ st]
  have "i = ''chart-'' @ show_nat (chartCounter b1 + 1)" by simp
  ultimately show ?thesis using c by simp
qed (use assms in \<open>simp_all add: generates_chart_id_def\<close>)

lemma generated_ids_above:
  assumes "Reset \<notin> set xs" and "i \<in> set (generated_chart_ids xs b)"
  shows "\<exists>k > chartCounter b. i = ''chart-'' @ show_nat k"
  using assms
proof (induction xs arbitrary: b)
  case Nil
  then show ?case by simp
next
  case (Cons x xs)
  obtain r b' where st: "step x b = (r, b')" by (cases "step x b")
  from Cons.prems have nr: "x \<noteq> Reset" and nrs: "Reset \<notin> set xs" by auto
  from step_chartCounter [OF nr, of b] st have mono: "chartCounter b \<le> chartCounter b'"
    by simp
  from Cons.prems(2) st
  consider (here) j where "r = Inr (Ret_id j)" "generates_chart_id x" "i = j"
    | (later) "i \<in> set (generated_chart_ids xs b')"
    by (auto split: sum.splits ret.splits if_splits)
  then show ?case
  proof cases
    case here
    with step_generated [of x b i b'] st show ?thesis by auto
  next
    case later
    from Cons.IH [OF nrs later] obtain k where
      k: "chartCounter b' < k" "i = ''chart-'' @ show_nat k" by blast
    from k(1) mono have "chartCounter b < k" by simp
    with k(2) show ?thesis by blast
  qed
qed

lemma generated_ids_distinct:
  assumes "Reset \<notin> set xs"
  shows "distinct (generated_chart_ids xs b)"
  using assms
proof (induction xs arbitrary: b)
  case Nil
  then show ?case by simp
next
  case (Cons x xs)
  obtain r b' where st: "step x b = (r, b')" by (cases "step x b")
  from Cons.prems have nrs: "Reset \<notin> set xs" by auto
  have IH: "distinct (generated_chart_ids xs b')" using nrs by (rule Cons.IH)
  show ?case
  proof (cases "\<exists>j. r = Inr (Ret_id j) \<and> generates_chart_id x")
    case True
    then obtain j where j: "r = Inr (Ret_id j)" "generates_chart_id x" by auto
    from step_generated [OF j(2)] st j(1)
    have jj: "j = ''chart-'' @ show_nat (chartCounter b + 1)"
      and c: "chartCounter b' = chartCounter b + 1" by auto
    have "j \<notin> set (generated_chart_ids xs b')"
    proof
      assume "j \<in> set (generated_chart_ids xs b')"
      from generated_ids_above [OF nrs this] obtain k where
        "k > chartCounter b'" "j = ''chart-'' @ show_nat k" by auto
      with jj c show False by (auto dest: show_nat_inj)
    qed
    with IH st j show ?thesis by simp
  next
    case False
    with IH st show ?thesis by (auto split: sum.splits ret.splits)
  qed
qed

lemmas builder_defs =
  createDocument_def createChartContainer_def createSection_def reset_def appendChild_def
  new_PageBuilder_def or_default_def no_document_config_def no_chart_container_config_def
  titled_section_def generates_chart_id_def matches_def Let_def

text \<open>
  Against claim C9 as stated. \<^verbatim>\<open>reset()\<close> takes \<^verbatim>\<open>chartCounter\<close> from 1 back to 0, and
  a builder that creates a document and a chart container, resets, and does the same
  again hands out the identifier \<^verbatim>\<open>chart-1\<close> twice.
\<close>

theorem counters_counterexample:
  "generated_chart_ids
     [CreateDocument no_document_config, CreateChartContainer no_chart_container_config, Reset,
      CreateDocument no_document_config, CreateChartContainer no_chart_container_config]
     (new_PageBuilder []) = [''chart-1'', ''chart-1''] \<and>
   chartCounter (run [CreateDocument no_document_config,
                      CreateChartContainer no_chart_container_config] (new_PageBuilder [])) = 1 \<and>
   chartCounter (run [CreateDocument no_document_config,
                      CreateChartContainer no_chart_container_config, Reset]
                   (new_PageBuilder [])) = 0"
  by (simp add: builder_defs show_nat_1)

text \<open>
  Section identifiers are a separate matter: a call of \<^verbatim>\<open>createSection\<close> that gives a
  title does not run \<^verbatim>\<open>++this.sectionCounter\<close>, so two titled sections in a row get
  the same default id.
\<close>

lemma createSection_titled_reuses_id:
  "fst (step (CreateSection (titled_section ''A''))
          (run [CreateDocument no_document_config] (new_PageBuilder [])))
     = Inr (Ret_id ''section-0'') \<and>
   fst (step (CreateSection (titled_section ''B''))
          (run [CreateDocument no_document_config, CreateSection (titled_section ''A'')]
             (new_PageBuilder [])))
     = Inr (Ret_id ''section-0'')"
  by (simp add: builder_defs show_nat_0)

lemma createDocument_counters:
  "chartCounter (snd (createDocument config b)) = chartCounter b \<and>
   sectionCounter (snd (createDocument config b)) = sectionCounter b"
  by (simp add: createDocument_def Let_def)

lemma reset_counters:
  "chartCounter (snd (reset b)) = 0 \<and> sectionCounter (snd (reset b)) = 0"
  by (simp add: reset_def Let_def)

text \<open>
  Claim C9, amended. No operation other than \<^verbatim>\<open>reset()\<close> ever decreases
  \<^verbatim>\<open>chartCounter\<close> or \<^verbatim>\<open>sectionCounter\<close>; \<^verbatim>\<open>reset()\<close> sets both to 0;
  \<^verbatim>\<open>createDocument\<close> leaves both as they are, so they persist from one document to the
  next. Over any sequence of operations without a \<^verbatim>\<open>reset()\<close>, started in any state, the
  generated chart container identifiers are pairwise distinct.
\<close>

theorem counters_between_resets:
  "(x \<noteq> Reset \<longrightarrow>
      chartCounter b \<le> chartCounter (snd (step x b)) \<and>
      sectionCounter b \<le> sectionCounter (snd (step x b))) \<and>
   chartCounter (snd (step Reset b)) = 0 \<and> sectionCounter (snd (step Reset b)) = 0 \<and>
   chartCounter (snd (step (CreateDocument config) b)) = chartCounter b \<and>
   sectionCounter (snd (step (CreateDocument config) b)) = sectionCounter b \<and>
   (Reset \<notin> set xs \<longrightarrow> distinct (generated_chart_ids xs b))"
  using step_chartCounter [of x b] step_sectionCounter [of x b]
    generated_ids_distinct [of xs b] createDocument_counters [of config b] reset_counters [of b]
  by simp

text \<open>
  A fresh builder: one chart container takes the counter from 0 to 1, and two of them in
  one document get \<^verbatim>\<open>chart-1\<close> and \<^verbatim>\<open>chart-2\<close>.
\<close>

theorem counters_between_resets_witness:
  "chartCounter (new_PageBuilder []) \<le>
     chartCounter (snd (step (CreateChartContainer no_chart_container_config)
                          (new_PageBuilder []))) \<and>
   chartCounter (snd (step (CreateChartContainer no_chart_container_config)
                        (new_PageBuilder []))) = 1 \<and>
   generated_chart_ids
     [CreateDocument no_document_config, CreateChartContainer no_chart_container_config,
      CreateChartContainer no_chart_container_config] (new_PageBuilder [])
     = [''chart-1'', ''chart-2''] \<and>
   distinct (generated_chart_ids
     [CreateDocument no_document_config, CreateChartContainer no_chart_container_config,
      CreateChartContainer no_chart_container_config] (new_PageBuilder []))"
proof -
  let ?xs = "[CreateDocument no_document_config, CreateChartContainer no_chart_container_config,
      CreateChartContainer no_chart_container_config]"
  have a: "CreateChartContainer no_chart_container_config \<noteq> Reset" by simp
  have b: "Reset \<notin> set ?xs" by simp
  from counters_between_resets
         [of "CreateChartContainer no_chart_container_config" "new_PageBuilder []"
             no_document_config ?xs] a b
  have "chartCounter (new_PageBuilder []) \<le>
     chartCounter (snd (step (CreateChartContainer no_chart_container_config)
                          (new_PageBuilder [])))"
    and "distinct (generated_chart_ids ?xs (new_PageBuilder []))"
    by blast+
  moreover have "chartCounter (snd (step (CreateChartContainer no_chart_container_config)
                                      (new_PageBuilder []))) = 1"
    by (simp add: builder_defs)
  moreover have "generated_chart_ids ?xs (new_PageBuilder []) = [''chart-1'', ''chart-2'']"
    by (simp add: builder_defs show_nat_1 show_nat_2)
  ultimately show ?thesis by simp
qed

section \<open>\<^verbatim>\<open>createDocument\<close> and the document body\<close>

lemma createDocument_body:
  "body (snd (createDocument config b)) = [ReportContainer (allocated b)] \<and>
   currentDocument (snd (createDocument config b)) = Some (allocated b)"
  by (simp add: createDocument_def Let_def)

lemma step_body:
  "body (snd (step x b)) =
     (case x of CreateDocument config \<Rightarrow> [ReportContainer (allocated b)] | _ \<Rightarrow> body b)"
proof (cases x)
  case (CreateChart d3_available config)
  then show ?thesis
    by (auto simp: createChart_def ensureInitialized_def Let_def createChartContainer_body
        split: option.splits sum.splits if_splits)
qed (auto simp: createDocument_body createSection_def addContent_def Let_def reset_def
      createChartContainer_body
      split: option.splits sum.splits dest: appendChild_keeps)

lemma run_report_containers:
  "length (filter is_report_container (body b)) \<le> 1 \<Longrightarrow>
   length (filter is_report_container (body (run xs b))) \<le> 1"
proof (induction xs arbitrary: b)
  case Nil
  then show ?case by simp
next
  case (Cons x xs)
  have "length (filter is_report_container (body (snd (step x b)))) \<le> 1"
    using Cons.prems by (simp add: step_body split: op.splits)
  then have "length (filter is_report_container (body (run xs (snd (step x b))))) \<le> 1"
    by (rule Cons.IH)
  then show ?case by simp
qed

lemma new_PageBuilder_no_container:
  "filter is_report_container (body (new_PageBuilder page_content)) = []"
  by (induction page_content) (simp_all add: new_PageBuilder_def)

text \<open>
  Claim C10. Whatever the body held, after \<^verbatim>\<open>createDocument\<close> it holds the new report
  container and nothing else, and \<^verbatim>\<open>currentDocument\<close> refers to that container: a
  report built before, and any other content of the page, is gone. Over every run of
  operations of a builder created on any page, the body never holds more than one report
  container.
\<close>

theorem createDocument_replaces_body:
  "body (snd (createDocument config b)) = [ReportContainer (allocated b)] \<and>
   currentDocument (snd (createDocument config b)) = Some (allocated b) \<and>
   length (filter is_report_container (body (run xs (new_PageBuilder page_content)))) \<le> 1"
  using createDocument_body [of config b]
    run_report_containers [of "new_PageBuilder page_content" xs]
  by (simp add: new_PageBuilder_no_container)

text \<open>
  On a page with content of its own, a second \<^verbatim>\<open>createDocument\<close> leaves the second
  container alone in the body.
\<close>

theorem createDocument_replaces_body_witness:
  "body (snd (createDocument no_document_config
                (run [CreateDocument no_document_config, CreateSection (titled_section ''A'')]
                   (new_PageBuilder [''<p>old</p>''])))) = [ReportContainer 1] \<and>
   body (run [CreateDocument no_document_config] (new_PageBuilder [''<p>old</p>'']))
     = [ReportContainer 0]"
proof -
  let ?b = "run [CreateDocument no_document_config, CreateSection (titled_section ''A'')]
              (new_PageBuilder [''<p>old</p>''])"
  have "allocated ?b = 1" by (simp add: builder_defs show_nat_0)
  with createDocument_replaces_body [of no_document_config ?b "[]" "[]"]
  have "body (snd (createDocument no_document_config ?b)) = [ReportContainer 1]" by simp
  moreover have "body (run [CreateDocument no_document_config] (new_PageBuilder [''<p>old</p>'']))
     = [ReportContainer 0]"
    by (simp add: builder_defs)
  ultimately show ?thesis by simp
qed

end
